theory Spec2Isabelle
  imports Complex_Main
begin

section \<open>Structured Product Pricing: the notebook \<open>Main.ipynb\<close>\<close>

text \<open>
  The notebook is a straight line of code cells over a handful of global variables.
  Every number in it is a Python or numpy float. The model keeps the shape of a
  float (a finite number, one of the two infinities, or not-a-number) and there is
  one zero, read as \<open>+0.0\<close>. What numpy does at a division by zero or outside the
  domain of \<open>log\<close> and \<open>sqrt\<close> (it returns \<open>inf\<close> or \<open>nan\<close> and goes on) is
  written out, and so is what Python does when two Python scalars are divided by
  zero (it raises).

  The cells are modelled with exact arithmetic on the finite floats: a finite float is
  a real, and neither rounding nor the bounded range of float64 is part of
  \<open>BS\<close> and the cells. The bounded range (overflow to an infinity, underflow to zero,
  the \<open>OverflowError\<close> of Python's float power) is added in \<open>BS_f64\<close>, the model of
  the pricer on which its error paths and the finiteness of its results are settled.
\<close>

subsection \<open>Floats\<close>

datatype npfloat = Fin real | PInf | NInf | NaN

datatype py_error = ZeroDivisionError | OverflowError | IndexError | SolverError

text \<open>The sign of a float as a real, and the infinity (or \<open>nan\<close>) of a given sign.\<close>

fun np_sign :: "npfloat \<Rightarrow> real" where
  "np_sign (Fin a) = sgn a"
| "np_sign PInf = 1"
| "np_sign NInf = - 1"
| "np_sign NaN = 0"

definition inf_of_sign :: "real \<Rightarrow> npfloat" where
  "inf_of_sign g = (if 0 < g then PInf else if g < 0 then NInf else NaN)"

instantiation npfloat :: "{plus, uminus, minus, times, inverse, zero, one}"
begin

definition zero_npfloat :: npfloat where
  "zero_npfloat = Fin 0"

definition one_npfloat :: npfloat where
  "one_npfloat = Fin 1"

fun plus_npfloat :: "npfloat \<Rightarrow> npfloat \<Rightarrow> npfloat" where
  "plus_npfloat NaN _ = NaN"
| "plus_npfloat _ NaN = NaN"
| "plus_npfloat (Fin a) (Fin b) = Fin (a + b)"
| "plus_npfloat PInf NInf = NaN"
| "plus_npfloat NInf PInf = NaN"
| "plus_npfloat PInf _ = PInf"
| "plus_npfloat _ PInf = PInf"
| "plus_npfloat NInf _ = NInf"
| "plus_npfloat _ NInf = NInf"

fun uminus_npfloat :: "npfloat \<Rightarrow> npfloat" where
  "uminus_npfloat (Fin a) = Fin (- a)"
| "uminus_npfloat PInf = NInf"
| "uminus_npfloat NInf = PInf"
| "uminus_npfloat NaN = NaN"

definition minus_npfloat :: "npfloat \<Rightarrow> npfloat \<Rightarrow> npfloat" where
  "minus_npfloat a b = a + (- b)"

fun times_npfloat :: "npfloat \<Rightarrow> npfloat \<Rightarrow> npfloat" where
  "times_npfloat NaN _ = NaN"
| "times_npfloat _ NaN = NaN"
| "times_npfloat (Fin a) (Fin b) = Fin (a * b)"
| "times_npfloat a b = inf_of_sign (np_sign a * np_sign b)"

text \<open>
  numpy's true division. A finite number over zero is an infinity of the sign of the
  numerator, zero over zero is \<open>nan\<close>; numpy prints a RuntimeWarning and returns.
\<close>

fun divide_npfloat :: "npfloat \<Rightarrow> npfloat \<Rightarrow> npfloat" where
  "divide_npfloat NaN _ = NaN"
| "divide_npfloat _ NaN = NaN"
| "divide_npfloat (Fin a) (Fin b) = (if b = 0 then inf_of_sign (sgn a) else Fin (a / b))"
| "divide_npfloat (Fin a) _ = Fin 0"
| "divide_npfloat a (Fin b) = (if b < 0 then - a else a)"
| "divide_npfloat _ _ = NaN"

definition inverse_npfloat :: "npfloat \<Rightarrow> npfloat" where
  "inverse_npfloat a = divide (Fin 1) a"

instance ..

end

instance npfloat :: power ..

text \<open>\<open>np.log\<close>, \<open>np.sqrt\<close>, \<open>np.exp\<close>: outside the domain the result is \<open>nan\<close>
  (or \<open>-inf\<close> for the logarithm of zero), again with a warning only.\<close>

fun np_log :: "npfloat \<Rightarrow> npfloat" where
  "np_log (Fin a) = (if 0 < a then Fin (ln a) else if a = 0 then NInf else NaN)"
| "np_log PInf = PInf"
| "np_log NInf = NaN"
| "np_log NaN = NaN"

fun np_sqrt :: "npfloat \<Rightarrow> npfloat" where
  "np_sqrt (Fin a) = (if 0 \<le> a then Fin (sqrt a) else NaN)"
| "np_sqrt PInf = PInf"
| "np_sqrt NInf = NaN"
| "np_sqrt NaN = NaN"

fun np_exp :: "npfloat \<Rightarrow> npfloat" where
  "np_exp (Fin a) = Fin (exp a)"
| "np_exp PInf = PInf"
| "np_exp NInf = Fin 0"
| "np_exp NaN = NaN"

text \<open>
  \<open>NormalDist().cdf(x)\<close> of Python's \<open>statistics\<close> is
  \<open>0.5 * (1.0 + erf(x / sqrt(2.0)))\<close>. The error function of the C library is not
  part of the repository: its values at finite arguments are the parameter \<open>Phi\<close>;
  at the infinities \<open>erf\<close> is \<open>1\<close> and \<open>-1\<close>, at \<open>nan\<close> it is \<open>nan\<close>.
\<close>

fun cdf :: "(real \<Rightarrow> real) \<Rightarrow> npfloat \<Rightarrow> npfloat" where
  "cdf Phi (Fin a) = Fin (Phi a)"
| "cdf Phi PInf = Fin 1"
| "cdf Phi NInf = Fin 0"
| "cdf Phi NaN = NaN"

text \<open>
  \<open>NormalDist().pdf(x)\<close> is \<open>exp(x * x / (-2.0 * variance)) / sqrt(tau * variance)\<close>
  with variance \<open>1.0\<close> and \<open>tau = 2 pi\<close>: the density
  \<open>N'(x) = exp(-x^2/2) / sqrt(2 pi)\<close> that the notebook writes before cell 24.
\<close>

definition pdf :: "npfloat \<Rightarrow> npfloat" where
  "pdf x = np_exp (x * x / Fin (- 2)) / Fin (sqrt (2 * pi))"

subsection \<open>The closed-form pricer (cell 12)\<close>

text \<open>
  \<^verbatim>\<open>
  def BS(S0, K, r, s, T):
      d1 = (np.log(S0 / K) + (r + s**2 / 2) * T) / (s * np.sqrt(T))
      d2 = d1 - s * np.sqrt(T)
      call = S0 * NormalDist().cdf(d1) - K * np.exp(-r*T) * NormalDist().cdf(d2)
      put = call + K * np.exp(-r*T) - S0 # by put-call parity
      return call, put
  \<close>
  \<open>S0 / K\<close> is the one operation of \<open>BS\<close> whose operands are both arguments. Where
  the notebook calls \<open>BS\<close> itself they are Python scalars and a zero \<open>K\<close> raises
  \<open>ZeroDivisionError\<close>; inside \<open>optimize.root\<close> (cell 48) \<open>K\<close> is a numpy array and
  the division is numpy's. Every other division of \<open>BS\<close> has a numpy value on one
  side (the result of \<open>np.log\<close> or \<open>np.sqrt\<close>) and never raises.

  Here the arithmetic on finite floats is exact, so that no result overflows or
  underflows; \<open>BS_f64\<close> below is the same function with the range of float64,
  where \<open>s**2\<close> can raise \<open>OverflowError\<close>.
\<close>

datatype operand = PyScalar | NdArray

definition truediv :: "operand \<Rightarrow> npfloat \<Rightarrow> npfloat \<Rightarrow> py_error + npfloat" where
  "truediv kd a b =
     (if kd = PyScalar \<and> b = Fin 0 then Inl ZeroDivisionError else Inr (a / b))"

definition BS ::
  "operand \<Rightarrow> (real \<Rightarrow> real) \<Rightarrow> npfloat \<Rightarrow> npfloat \<Rightarrow> npfloat \<Rightarrow> npfloat \<Rightarrow> npfloat
     \<Rightarrow> py_error + npfloat \<times> npfloat" where
  "BS kd Phi S0 K r s T =
     (case truediv kd S0 K of
        Inl e \<Rightarrow> Inl e
      | Inr q \<Rightarrow>
          (let d1 = (np_log q + (r + s ^ 2 / Fin 2) * T) / (s * np_sqrt T);
               d2 = d1 - s * np_sqrt T;
               call = S0 * cdf Phi d1 - K * np_exp (- r * T) * cdf Phi d2;
               put = call + K * np_exp (- r * T) - S0
           in Inr (call, put)))"

text \<open>The formulas of the specification (section 4.1), over the reals.\<close>

definition spec_d1 :: "real \<Rightarrow> real \<Rightarrow> real \<Rightarrow> real \<Rightarrow> real \<Rightarrow> real" where
  "spec_d1 S0 K r s T = (ln (S0 / K) + (r + s\<^sup>2 / 2) * T) / (s * sqrt T)"

definition spec_d2 :: "real \<Rightarrow> real \<Rightarrow> real \<Rightarrow> real \<Rightarrow> real \<Rightarrow> real" where
  "spec_d2 S0 K r s T = spec_d1 S0 K r s T - s * sqrt T"

definition spec_call :: "(real \<Rightarrow> real) \<Rightarrow> real \<Rightarrow> real \<Rightarrow> real \<Rightarrow> real \<Rightarrow> real \<Rightarrow> real" where
  "spec_call Phi S0 K r s T =
     S0 * Phi (spec_d1 S0 K r s T) - K * exp (- (r * T)) * Phi (spec_d2 S0 K r s T)"

definition spec_put :: "(real \<Rightarrow> real) \<Rightarrow> real \<Rightarrow> real \<Rightarrow> real \<Rightarrow> real \<Rightarrow> real \<Rightarrow> real" where
  "spec_put Phi S0 K r s T = spec_call Phi S0 K r s T + K * exp (- (r * T)) - S0"

text \<open>The standard normal density of section 4.2.\<close>

definition spec_phi :: "real \<Rightarrow> real" where
  "spec_phi x = exp (- x\<^sup>2 / 2) / sqrt (2 * pi)"

subsection \<open>The pricer with the range of float64\<close>

text \<open>
  A float64 is finite below \<open>2^1024\<close>. Rounding to nearest takes a result of
  magnitude \<open>2^1024 - 2^970\<close> or more to an infinity and one of magnitude \<open>2^-1075\<close>
  or less to zero; \<open>f64\<close> is this part of rounding, and a result between the two
  bounds is kept as it is. The arithmetic of numpy, and \<open>+\<close>, \<open>-\<close>, \<open>*\<close>, \<open>/\<close> of
  Python floats, overflow to an infinity without an exception.
\<close>

definition f64_overflow :: real where
  "f64_overflow = 2 ^ 1024 - 2 ^ 970"

definition f64_underflow :: real where
  "f64_underflow = 1 / 2 ^ 1075"

fun f64 :: "npfloat \<Rightarrow> npfloat" where
  "f64 (Fin a) =
     (if f64_overflow \<le> \<bar>a\<bar> then inf_of_sign a
      else if \<bar>a\<bar> \<le> f64_underflow then Fin 0
      else Fin a)"
| "f64 PInf = PInf"
| "f64 NInf = NInf"
| "f64 NaN = NaN"

definition fadd :: "npfloat \<Rightarrow> npfloat \<Rightarrow> npfloat" where
  "fadd a b = f64 (a + b)"

definition fsub :: "npfloat \<Rightarrow> npfloat \<Rightarrow> npfloat" where
  "fsub a b = f64 (a - b)"

definition fmul :: "npfloat \<Rightarrow> npfloat \<Rightarrow> npfloat" where
  "fmul a b = f64 (a * b)"

definition fdiv :: "npfloat \<Rightarrow> npfloat \<Rightarrow> npfloat" where
  "fdiv a b = f64 (a / b)"

definition flog :: "npfloat \<Rightarrow> npfloat" where
  "flog a = f64 (np_log a)"

definition fsqrt :: "npfloat \<Rightarrow> npfloat" where
  "fsqrt a = f64 (np_sqrt a)"

definition fexp :: "npfloat \<Rightarrow> npfloat" where
  "fexp a = f64 (np_exp a)"

definition fcdf :: "(real \<Rightarrow> real) \<Rightarrow> npfloat \<Rightarrow> npfloat" where
  "fcdf Phi a = f64 (cdf Phi a)"

text \<open>
  \<open>s**2\<close>: when \<open>s\<close> is a Python float and the square overflows, Python raises
  \<open>OverflowError\<close>; when \<open>s\<close> is a numpy value (as \<open>vol\<close> is) the square is \<open>inf\<close>.
\<close>

definition pow2 :: "operand \<Rightarrow> npfloat \<Rightarrow> py_error + npfloat" where
  "pow2 ks s =
     (case s of
        Fin a \<Rightarrow> if ks = PyScalar \<and> f64_overflow \<le> a\<^sup>2 then Inl OverflowError
                 else Inr (f64 (Fin (a\<^sup>2)))
      | _ \<Rightarrow> Inr (s ^ 2))"

text \<open>
  \<open>BS\<close> once more, operation by operation, for float arguments: \<open>kd\<close> says whether
  \<open>S0\<close> and \<open>K\<close> are Python scalars, \<open>ks\<close> whether \<open>s\<close> is one. Python evaluates
  \<open>S0 / K\<close> before \<open>s**2\<close>.
\<close>

definition BS_f64 ::
  "operand \<Rightarrow> operand \<Rightarrow> (real \<Rightarrow> real) \<Rightarrow> npfloat \<Rightarrow> npfloat \<Rightarrow> npfloat \<Rightarrow> npfloat \<Rightarrow> npfloat
     \<Rightarrow> py_error + npfloat \<times> npfloat" where
  "BS_f64 kd ks Phi S0 K r s T =
     (case truediv kd S0 K of
        Inl e \<Rightarrow> Inl e
      | Inr q \<Rightarrow>
          (case pow2 ks s of
             Inl e \<Rightarrow> Inl e
           | Inr s2 \<Rightarrow>
               (let d1 = fdiv (fadd (flog (f64 q)) (fmul (fadd r (fdiv s2 (Fin 2))) T))
                           (fmul s (fsqrt T));
                    d2 = fsub d1 (fmul s (fsqrt T));
                    call = fsub (fmul S0 (fcdf Phi d1))
                             (fmul (fmul K (fexp (fmul (- r) T))) (fcdf Phi d2));
                    put = fsub (fadd call (fmul K (fexp (fmul (- r) T)))) S0
                in Inr (call, put))))"

text \<open>
  A real is in the range of float64 when \<open>f64\<close> keeps it. \<open>BS_in_range\<close> says that
  of every intermediate result of the formulas of section 4.1.
\<close>

definition representable :: "real \<Rightarrow> bool" where
  "representable a \<longleftrightarrow> \<bar>a\<bar> < f64_overflow \<and> (a = 0 \<or> f64_underflow < \<bar>a\<bar>)"

definition BS_in_range :: "(real \<Rightarrow> real) \<Rightarrow> real \<Rightarrow> real \<Rightarrow> real \<Rightarrow> real \<Rightarrow> real \<Rightarrow> bool" where
  "BS_in_range Phi S0 K r s T =
     (let d1 = spec_d1 S0 K r s T;
          d2 = spec_d2 S0 K r s T;
          Ke = K * exp (- r * T)
      in list_all representable
           [S0 / K, ln (S0 / K), s\<^sup>2, s\<^sup>2 / 2, r + s\<^sup>2 / 2, (r + s\<^sup>2 / 2) * T,
            ln (S0 / K) + (r + s\<^sup>2 / 2) * T, sqrt T, s * sqrt T, d1, d2,
            Phi d1, Phi d2, S0 * Phi d1, - r * T, exp (- r * T), Ke, Ke * Phi d2,
            S0 * Phi d1 - Ke * Phi d2, S0 * Phi d1 - Ke * Phi d2 + Ke,
            S0 * Phi d1 - Ke * Phi d2 + Ke - S0])"

subsection \<open>Array operations\<close>

text \<open>
  \<open>np.fmax\<close> is the maximum that ignores a \<open>nan\<close> operand; \<open>>\<close> is false as soon
  as an operand is \<open>nan\<close>.
\<close>

fun np_fmax :: "npfloat \<Rightarrow> npfloat \<Rightarrow> npfloat" where
  "np_fmax NaN b = b"
| "np_fmax a NaN = a"
| "np_fmax PInf _ = PInf"
| "np_fmax _ PInf = PInf"
| "np_fmax NInf b = b"
| "np_fmax a NInf = a"
| "np_fmax (Fin a) (Fin b) = Fin (max a b)"


definition np_sum :: "npfloat list \<Rightarrow> npfloat" where
  "np_sum xs = foldr (+) xs (Fin 0)"

text \<open>\<open>np.mean\<close>: the sum over the number of elements, \<open>nan\<close> for the empty array.\<close>

definition np_mean :: "npfloat list \<Rightarrow> npfloat" where
  "np_mean xs = np_sum xs / Fin (real (length xs))"

text \<open>
  \<open>Series.diff()\<close> of pandas: the first element is \<open>nan\<close>, element \<open>i\<close> is
  \<open>x[i] - x[i-1]\<close>.
\<close>

definition series_diff :: "npfloat list \<Rightarrow> npfloat list" where
  "series_diff xs =
     (case xs of [] \<Rightarrow> [] | _ # ys \<Rightarrow> NaN # map (\<lambda>(a, b). b - a) (zip xs ys))"

text \<open>
  \<open>np.std\<close> of a pandas Series hands over to \<open>Series.std(ddof=0)\<close>, which skips
  the \<open>nan\<close> elements: with \<open>n\<close> elements left and \<open>avg\<close> their mean, the result is
  \<open>sqrt(sum((avg - x)**2) / n)\<close>, and \<open>nan\<close> when nothing is left.
\<close>

definition np_std :: "npfloat list \<Rightarrow> npfloat" where
  "np_std xs =
     (let vs = filter (\<lambda>v. v \<noteq> NaN) xs;
          n = length vs
      in if n = 0 then NaN
         else let avg = np_sum vs / Fin (real n);
                  sqr = map (\<lambda>v. (avg - v) ^ 2) vs
              in np_sqrt (np_sum sqr / Fin (real n)))"

subsection \<open>What the notebook takes from libraries\<close>

text \<open>
  \<open>optimize.root\<close> returns an \<open>OptimizeResult\<close>: the array \<open>x\<close> it stopped at and the
  flag \<open>success\<close>, false when the iteration did not converge. It raises only what
  the function it is given raises (or on ill-formed arguments).
\<close>

record OptimizeResult =
  res_x :: "npfloat list"
  res_success :: bool

text \<open>
  The library functions whose code is not in the repository, as parameters:
  the normal distribution function at finite arguments, numpy's
  \<open>default_rng(seed)\<close> and \<open>Generator.normal(size)\<close> over generator states \<open>'g\<close>
  (the draws are finite numbers), and scipy's \<open>optimize.root(fun, x0)\<close>.
\<close>

record 'g lib =
  erf_cdf :: "real \<Rightarrow> real"
  default_rng :: "nat \<Rightarrow> 'g"
  normal :: "'g \<Rightarrow> nat \<Rightarrow> real list \<times> 'g"
  optimize_root :: "(npfloat \<Rightarrow> py_error + npfloat) \<Rightarrow> npfloat \<Rightarrow> py_error + OptimizeResult"

subsection \<open>The notebook's variables\<close>

text \<open>
  One field for each global variable the code cells assign, under its name in the
  notebook (\<open>df_close\<close> and \<open>df_return\<close> are the columns \<open>df['close']\<close> and
  \<open>df['return']\<close>), and \<open>np_random\<close> for the state of numpy's hidden global
  generator, which \<open>np.random.normal\<close> would use. The cells run top to bottom, so
  each variable is assigned before it is read; until then its field holds a
  placeholder.
\<close>

record 'g nb =
  np_random :: 'g
  df_close :: "npfloat list"
  df_return :: "npfloat list"
  vol :: npfloat
  rfr :: npfloat
  maturity :: npfloat
  last_close :: npfloat
  c :: npfloat
  p :: npfloat
  epsilon :: "npfloat list"
  ST :: "npfloat list"
  call_payoffs :: "npfloat list"
  put_payoffs :: "npfloat list"
  c_mc :: npfloat
  p_mc :: npfloat
  d1 :: npfloat
  delta_c :: npfloat
  delta_p :: npfloat
  vega :: npfloat
  p0 :: npfloat
  pnl :: npfloat
  tr_rate :: npfloat
  T :: npfloat
  call_spread :: npfloat
  k :: npfloat
  PV_bank :: npfloat
  c_otm :: npfloat

definition nb_init :: "'g \<Rightarrow> npfloat list \<Rightarrow> 'g nb" where
  "nb_init g cs =
     \<lparr>np_random = g, df_close = cs, df_return = [], vol = NaN, rfr = NaN, maturity = NaN,
      last_close = NaN, c = NaN, p = NaN, epsilon = [], ST = [], call_payoffs = [],
      put_payoffs = [], c_mc = NaN, p_mc = NaN, d1 = NaN, delta_c = NaN, delta_p = NaN,
      vega = NaN, p0 = NaN, pnl = NaN, tr_rate = NaN, T = NaN, call_spread = NaN, k = NaN,
      PV_bank = NaN, c_otm = NaN\<rparr>"

subsection \<open>The code cells\<close>

text \<open>
  Cell 6: \<^verbatim>\<open>df['return'] = np.log(df['close']).diff()\<close>.
  Cell 8: \<^verbatim>\<open>vol = np.std(df['return']) * np.sqrt(252)\<close>.
\<close>

definition cell6 :: "'g nb \<Rightarrow> 'g nb" where
  "cell6 s = s\<lparr>df_return := series_diff (map np_log (df_close s))\<rparr>"

definition cell8 :: "'g nb \<Rightarrow> 'g nb" where
  "cell8 s = s\<lparr>vol := np_std (df_return s) * np_sqrt (Fin 252)\<rparr>"

text \<open>
  Cell 12, after the definition of \<open>BS\<close>:
  \<^verbatim>\<open>
  rfr, maturity = 0.08, 3
  last_close = 1
  c, p = BS(S0 = last_close, K = last_close, r = rfr, s = vol, T = maturity)
  \<close>
\<close>

definition cell12 :: "'g lib \<Rightarrow> 'g nb \<Rightarrow> py_error + 'g nb" where
  "cell12 L s =
     (let s1 = s\<lparr>rfr := Fin (8 / 100), maturity := Fin 3, last_close := Fin 1\<rparr>
      in case BS PyScalar (erf_cdf L) (last_close s1) (last_close s1) (rfr s1) (vol s1)
                (maturity s1) of
           Inl e \<Rightarrow> Inl e
         | Inr (cv, pv) \<Rightarrow> Inr (s1\<lparr>c := cv, p := pv\<rparr>))"

text \<open>
  Cell 16:
  \<^verbatim>\<open>
  epsilon = default_rng(seed=42).normal(size=10000)
  ST = last_close * np.exp((rfr - vol**2 / 2) * maturity + vol * epsilon * np.sqrt(maturity))
  call_payoffs = np.fmax(0, ST - last_close)
  put_payoffs = np.fmax(0, last_close - ST)
  c_mc = np.mean(call_payoffs)*np.exp(-rfr*maturity)
  p_mc = np.mean(put_payoffs)*np.exp(-rfr*maturity)
  \<close>
  \<open>cell16_pricing\<close> is the cell from its second line on, for the sample in \<open>epsilon\<close>.
\<close>

definition cell16_pricing :: "'g nb \<Rightarrow> 'g nb" where
  "cell16_pricing s =
     (let s1 = s\<lparr>ST := map (\<lambda>e. last_close s
                          * np_exp ((rfr s - vol s ^ 2 / Fin 2) * maturity s
                                    + vol s * e * np_sqrt (maturity s))) (epsilon s)\<rparr>;
          s2 = s1\<lparr>call_payoffs := map (\<lambda>x. np_fmax (Fin 0) (x - last_close s1)) (ST s1)\<rparr>;
          s3 = s2\<lparr>put_payoffs := map (\<lambda>x. np_fmax (Fin 0) (last_close s2 - x)) (ST s2)\<rparr>;
          s4 = s3\<lparr>c_mc := np_mean (call_payoffs s3) * np_exp (- rfr s3 * maturity s3)\<rparr>
      in s4\<lparr>p_mc := np_mean (put_payoffs s4) * np_exp (- rfr s4 * maturity s4)\<rparr>)"

definition cell16 :: "'g lib \<Rightarrow> 'g nb \<Rightarrow> 'g nb" where
  "cell16 L s =
     cell16_pricing (s\<lparr>epsilon := map Fin (fst (normal L (default_rng L 42) 10000))\<rparr>)"

text \<open>
  Cell 21:
  \<^verbatim>\<open>
  d1 = ((rfr + vol**2 / 2) * maturity) / (vol * np.sqrt(maturity))
  delta_c = NormalDist().cdf(d1)
  delta_p = delta_c - 1
  \<close>
  Cells 24 and 31 display two closed-form derivatives of \<open>d1\<close> and \<open>vega\<close> in the
  volatility and assign nothing.
\<close>

definition cell21 :: "'g lib \<Rightarrow> 'g nb \<Rightarrow> 'g nb" where
  "cell21 L s =
     (let s1 = s\<lparr>d1 := ((rfr s + vol s ^ 2 / Fin 2) * maturity s)
                          / (vol s * np_sqrt (maturity s))\<rparr>;
          s2 = s1\<lparr>delta_c := cdf (erf_cdf L) (d1 s1)\<rparr>
      in s2\<lparr>delta_p := delta_c s2 - Fin 1\<rparr>)"

text \<open>
  Cell 28: \<^verbatim>\<open>vega = last_close * np.sqrt(maturity) * NormalDist().pdf(d1)\<close>.
\<close>

definition cell28 :: "'g nb \<Rightarrow> 'g nb" where
  "cell28 s = s\<lparr>vega := last_close s * np_sqrt (maturity s) * pdf (d1 s)\<rparr>"

text \<open>
  Cell 40:
  \<^verbatim>\<open>
  p0, pnl, tr_rate, T = 0.98, 0.02, 0.1, 3
  call_spread = BS(1, 1, rfr, vol, T)[0] - BS(1, 1.5, rfr, vol, T)[0]
  k = (p0 - np.exp(-rfr * maturity))/call_spread
  \<close>
  Cell 41: \<^verbatim>\<open>PV_bank = p0 - np.exp(-tr_rate * T) - pnl - k * call_spread\<close>.
\<close>

definition cell40 :: "'g lib \<Rightarrow> 'g nb \<Rightarrow> py_error + 'g nb" where
  "cell40 L s =
     (let s1 = s\<lparr>p0 := Fin (98 / 100), pnl := Fin (2 / 100), tr_rate := Fin (1 / 10),
                  T := Fin 3\<rparr>
      in case BS PyScalar (erf_cdf L) (Fin 1) (Fin 1) (rfr s1) (vol s1) (T s1) of
           Inl e \<Rightarrow> Inl e
         | Inr (c_atm, _) \<Rightarrow>
             (case BS PyScalar (erf_cdf L) (Fin 1) (Fin (3 / 2)) (rfr s1) (vol s1) (T s1) of
                Inl e \<Rightarrow> Inl e
              | Inr (c_150, _) \<Rightarrow>
                  (let s2 = s1\<lparr>call_spread := c_atm - c_150\<rparr>
                   in Inr (s2\<lparr>k := (p0 s2 - np_exp (- rfr s2 * maturity s2))
                                      / call_spread s2\<rparr>))))"

definition cell41 :: "'g nb \<Rightarrow> 'g nb" where
  "cell41 s = s\<lparr>PV_bank := p0 s - np_exp (- tr_rate s * T s) - pnl s - k s * call_spread s\<rparr>"

text \<open>
  The client's present value, from the markdown cell before cell 40:
  \<open>PV_client = -0.98 + exp(-r_f T) + k (c_ATM - c_OTM)\<close>, in the variables of cell 40.
\<close>

definition PV_client :: "'g nb \<Rightarrow> npfloat" where
  "PV_client s = - p0 s + np_exp (- rfr s * maturity s) + k s * call_spread s"

text \<open>
  Cell 46: \<^verbatim>\<open>c_otm = BS(1, 1, rfr, vol, T)[0] - (p0 - np.exp(-rfr * maturity))\<close>.
  Cell 48 displays
  \<^verbatim>\<open>
  optimize.root(
      fun = lambda x : BS(1, x, rfr, vol, maturity)[0] - c_otm,
      x0 = 1.5
  ).x[0]
  \<close>
  and cell 49 displays
  \<^verbatim>\<open>p0 - np.exp(-tr_rate*maturity) - pnl - (BS(1, 1, rfr, vol, T)[0] - c_otm) > 0\<close>.
  Cell 48 reads \<open>x\<close> of the result and nothing else: not \<open>success\<close>.
\<close>

definition cell46 :: "'g lib \<Rightarrow> 'g nb \<Rightarrow> py_error + 'g nb" where
  "cell46 L s =
     (case BS PyScalar (erf_cdf L) (Fin 1) (Fin 1) (rfr s) (vol s) (T s) of
        Inl e \<Rightarrow> Inl e
      | Inr (c_atm, _) \<Rightarrow> Inr (s\<lparr>c_otm := c_atm - (p0 s - np_exp (- rfr s * maturity s))\<rparr>))"

definition root_fun :: "'g lib \<Rightarrow> 'g nb \<Rightarrow> npfloat \<Rightarrow> py_error + npfloat" where
  "root_fun L s x =
     (case BS NdArray (erf_cdf L) (Fin 1) x (rfr s) (vol s) (maturity s) of
        Inl e \<Rightarrow> Inl e
      | Inr (cv, _) \<Rightarrow> Inr (cv - c_otm s))"

definition out48 :: "'g lib \<Rightarrow> 'g nb \<Rightarrow> py_error + npfloat" where
  "out48 L s =
     (case optimize_root L (root_fun L s) (Fin (3 / 2)) of
        Inl e \<Rightarrow> Inl e
      | Inr res \<Rightarrow> (case res_x res of [] \<Rightarrow> Inl IndexError | v # _ \<Rightarrow> Inr v))"


text \<open>Running cells in order stops at the first exception.\<close>

fun run_cells :: "('s \<Rightarrow> py_error + 's) list \<Rightarrow> 's \<Rightarrow> py_error + 's" where
  "run_cells [] s = Inr s"
| "run_cells (f # fs) s = (case f s of Inl e \<Rightarrow> Inl e | Inr s' \<Rightarrow> run_cells fs s')"

text \<open>The cells that assign variables: those up to cell 8, and those after it.\<close>

definition cells_to_vol :: "('g nb \<Rightarrow> py_error + 'g nb) list" where
  "cells_to_vol = [\<lambda>s. Inr (cell6 s), \<lambda>s. Inr (cell8 s)]"

definition cells_after_vol :: "'g lib \<Rightarrow> ('g nb \<Rightarrow> py_error + 'g nb) list" where
  "cells_after_vol L =
     [cell12 L, \<lambda>s. Inr (cell16 L s), \<lambda>s. Inr (cell21 L s), \<lambda>s. Inr (cell28 s),
      cell40 L, \<lambda>s. Inr (cell41 s), cell46 L]"

definition run :: "'g lib \<Rightarrow> 'g nb \<Rightarrow> py_error + 'g nb" where
  "run L s = run_cells (cells_to_vol @ cells_after_vol L) s"

subsection \<open>The volatility of the specification\<close>

text \<open>
  Section 3 of the specification: the standard deviation of the daily log returns
  times \<open>sqrt 252\<close>. The log returns of \<open>n\<close> prices are the \<open>n - 1\<close> differences of
  successive logarithms; the standard deviation is the population one.
\<close>

definition log_returns :: "real list \<Rightarrow> real list" where
  "log_returns cs = map (\<lambda>i. ln (cs ! Suc i) - ln (cs ! i)) [0..<length cs - 1]"

definition mean :: "real list \<Rightarrow> real" where
  "mean xs = sum_list xs / real (length xs)"

definition stdev :: "real list \<Rightarrow> real" where
  "stdev xs = sqrt (sum_list (map (\<lambda>x. (x - mean xs)\<^sup>2) xs) / real (length xs))"

definition spec_vol :: "real list \<Rightarrow> real" where
  "spec_vol cs = stdev (log_returns cs) * sqrt 252"

subsection \<open>Concrete libraries and states for the closed examples\<close>

text \<open>A stand-in for the library's distribution function where an example needs one.\<close>

definition Phi_half :: "real \<Rightarrow> real" where
  "Phi_half x = 1 / 2"

text \<open>
  A function whose derivative is the normal density at the two points \<open>d1\<close> and \<open>d2\<close>
  of the at-the-money option with volatility 0.35.
\<close>

definition Phi_quadratic :: "real \<Rightarrow> real" where
  "Phi_quadratic x =
     (let a = spec_d1 1 1 (8 / 100) (35 / 100) 3;
          b = spec_d2 1 1 (8 / 100) (35 / 100) 3
      in spec_phi a * x + (spec_phi a - spec_phi b) / (2 * (a - b)) * (x - a)\<^sup>2)"

text \<open>
  A library whose generator state is a counter and whose root-finder gives up at
  its starting point, and one whose root-finder returns the root of cell 48's
  equation for \<open>Phi_half\<close>.
\<close>

definition lib_stalled :: "nat lib" where
  "lib_stalled =
     \<lparr>erf_cdf = Phi_half,
      default_rng = (\<lambda>seed. seed),
      normal = (\<lambda>g n. (map (\<lambda>i. real ((g + i) mod 3) - 1) [0..<n], g + n)),
      optimize_root = (\<lambda>f x0. Inr \<lparr>res_x = [x0], res_success = False\<rparr>)\<rparr>"


text \<open>
  A state as cell 8 and the first lines of cell 12 leave it, with the volatility 0.35
  in place of the one of the price data.
\<close>

definition nb_example :: "nat nb" where
  "nb_example =
     (nb_init 0 [Fin 100, Fin 110, Fin 99])
       \<lparr>vol := Fin (35 / 100), rfr := Fin (8 / 100), maturity := Fin 3, last_close := Fin 1\<rparr>"

section \<open>Properties\<close>

subsection \<open>Arithmetic on finite floats\<close>

lemma Fin_minus [simp]: "Fin a - Fin b = Fin (a - b)"
  by (simp add: minus_npfloat_def)

lemma Fin_divide [simp]: "b \<noteq> 0 \<Longrightarrow> Fin a / Fin b = Fin (a / b)"
  by simp

lemma npfloat_power2: "(x::npfloat) ^ 2 = x * (x * Fin 1)"
  by (simp add: numeral_2_eq_2 one_npfloat_def)

lemma Fin_power2 [simp]: "Fin a ^ 2 = Fin (a\<^sup>2)"
  by (simp add: npfloat_power2 power2_eq_square)

lemma np_log_Fin [simp]: "0 < a \<Longrightarrow> np_log (Fin a) = Fin (ln a)"
  by simp

lemma np_sqrt_Fin [simp]: "0 \<le> a \<Longrightarrow> np_sqrt (Fin a) = Fin (sqrt a)"
  by simp

lemma BS_finite:
  assumes "0 < S0" "0 < K" "0 < s" "0 < Tm"
  shows "BS kd Phi (Fin S0) (Fin K) (Fin r) (Fin s) (Fin Tm)
           = Inr (Fin (spec_call Phi S0 K r s Tm), Fin (spec_put Phi S0 K r s Tm))"
proof -
  have q: "truediv kd (Fin S0) (Fin K) = Inr (Fin (S0 / K))"
    using assms by (simp add: truediv_def)
  have pos: "0 < S0 / K" and nz: "s * sqrt Tm \<noteq> 0"
    using assms by simp_all
  show ?thesis
    using assms pos nz
    by (simp add: BS_def q Let_def spec_call_def spec_put_def spec_d1_def spec_d2_def)
qed

lemma BS_raises_iff:
  "BS kd Phi S0 K r s Tm = Inl e \<longleftrightarrow> kd = PyScalar \<and> K = Fin 0 \<and> e = ZeroDivisionError"
  by (auto simp: BS_def truediv_def Let_def)

subsection \<open>Put-call parity\<close>



subsection \<open>The error paths of the pricer\<close>

lemma f64_bounds: "f64_underflow < 1 / 1000" "1000 < f64_overflow" "0 < f64_underflow"
  by (simp_all add: f64_underflow_def f64_overflow_def)

lemma f64_exact: "representable a \<Longrightarrow> f64 (Fin a) = Fin a"
  using f64_bounds(3) by (auto simp: representable_def)

lemma representable_0: "representable 0"
  using f64_bounds by (simp add: representable_def)

lemma representable_window: "1 / 1000 \<le> \<bar>a\<bar> \<Longrightarrow> \<bar>a\<bar> \<le> 1000 \<Longrightarrow> representable a"
  using f64_bounds by (simp add: representable_def)

lemma BS_f64_raises_iff:
  "BS_f64 kd ks Phi S0 K r s Tm = Inl e \<longleftrightarrow>
     (kd = PyScalar \<and> K = Fin 0 \<and> e = ZeroDivisionError)
     \<or> (\<not> (kd = PyScalar \<and> K = Fin 0) \<and> ks = PyScalar
          \<and> (\<exists>a. s = Fin a \<and> f64_overflow \<le> a\<^sup>2) \<and> e = OverflowError)"
  by (auto simp: BS_f64_def truediv_def pow2_def Let_def split: npfloat.splits)

lemma BS_f64_in_range:
  assumes pos: "0 < S0" "0 < K" "0 < s" "0 < Tm"
    and rng: "BS_in_range Phi S0 K r s Tm"
  shows "fmul (Fin s) (fsqrt (Fin Tm)) = Fin (s * sqrt Tm)"
    and "BS_f64 kd ks Phi (Fin S0) (Fin K) (Fin r) (Fin s) (Fin Tm)
           = Inr (Fin (spec_call Phi S0 K r s Tm), Fin (spec_put Phi S0 K r s Tm))"
proof -
  let ?d1 = "spec_d1 S0 K r s Tm" and ?d2 = "spec_d2 S0 K r s Tm"
  let ?Ke = "K * exp (- r * Tm)"
  have R: "representable (S0 / K)" "representable (ln (S0 / K))" "representable (s\<^sup>2)"
    "representable (s\<^sup>2 / 2)" "representable (r + s\<^sup>2 / 2)"
    "representable ((r + s\<^sup>2 / 2) * Tm)" "representable (ln (S0 / K) + (r + s\<^sup>2 / 2) * Tm)"
    "representable (sqrt Tm)" "representable (s * sqrt Tm)" "representable ?d1" "representable ?d2"
    "representable (Phi ?d1)" "representable (Phi ?d2)" "representable (S0 * Phi ?d1)"
    "representable (- r * Tm)" "representable (exp (- r * Tm))" "representable ?Ke"
    "representable (?Ke * Phi ?d2)" "representable (S0 * Phi ?d1 - ?Ke * Phi ?d2)"
    "representable (S0 * Phi ?d1 - ?Ke * Phi ?d2 + ?Ke)"
    "representable (S0 * Phi ?d1 - ?Ke * Phi ?d2 + ?Ke - S0)"
    using rng unfolding BS_in_range_def Let_def by simp_all
  have q: "truediv kd (Fin S0) (Fin K) = Inr (Fin (S0 / K))"
    using pos by (simp add: truediv_def)
  have "s\<^sup>2 < f64_overflow"
    using R(3) by (simp add: representable_def)
  then have s2: "pow2 ks (Fin s) = Inr (Fin (s\<^sup>2))"
    using R(3) by (simp add: pow2_def f64_exact del: f64.simps)
  have nz: "s * sqrt Tm \<noteq> 0" "0 < S0 / K"
    using pos by simp_all
  show dv: "fmul (Fin s) (fsqrt (Fin Tm)) = Fin (s * sqrt Tm)"
    using R pos by (simp add: fmul_def fsqrt_def f64_exact del: f64.simps)
  have d1: "fdiv (fadd (flog (f64 (Fin (S0 / K)))) (fmul (fadd (Fin r) (fdiv (Fin (s\<^sup>2)) (Fin 2))) (Fin Tm)))
              (Fin (s * sqrt Tm)) = Fin ?d1"
    using R pos nz by (simp add: fdiv_def fadd_def fmul_def flog_def f64_exact spec_d1_def del: f64.simps)
  have d2: "fsub (Fin ?d1) (Fin (s * sqrt Tm)) = Fin ?d2"
    using R by (simp add: fsub_def f64_exact spec_d2_def del: f64.simps)
  have Ke: "fmul (Fin K) (fexp (fmul (- Fin r) (Fin Tm))) = Fin ?Ke"
    using R by (simp add: fmul_def fexp_def f64_exact del: f64.simps)
  have call: "fsub (fmul (Fin S0) (fcdf Phi (Fin ?d1))) (fmul (Fin ?Ke) (fcdf Phi (Fin ?d2)))
                = Fin (S0 * Phi ?d1 - ?Ke * Phi ?d2)"
    using R by (simp add: fsub_def fmul_def fcdf_def f64_exact del: f64.simps)
  have put: "fsub (fadd (Fin (S0 * Phi ?d1 - ?Ke * Phi ?d2)) (Fin ?Ke)) (Fin S0)
                = Fin (S0 * Phi ?d1 - ?Ke * Phi ?d2 + ?Ke - S0)"
    using R by (simp add: fsub_def fadd_def f64_exact del: f64.simps)
  show "BS_f64 kd ks Phi (Fin S0) (Fin K) (Fin r) (Fin s) (Fin Tm)
           = Inr (Fin (spec_call Phi S0 K r s Tm), Fin (spec_put Phi S0 K r s Tm))"
    unfolding BS_f64_def q s2 Let_def sum.case dv d1 d2 Ke call put
    by (simp add: spec_call_def spec_put_def)
qed


lemma sqrt3_bounds: "1 \<le> sqrt 3" "sqrt 3 \<le> 2"
  by (simp_all add: real_le_lsqrt real_le_rsqrt)

lemma exp_024_bounds: "76 / 100 \<le> exp (- (24 / 100) :: real)" "exp (- (24 / 100) :: real) \<le> 81 / 100"
proof -
  show "76 / 100 \<le> exp (- (24 / 100) :: real)"
    using exp_ge_add_one_self [of "- (24 / 100) :: real"] by simp
  have "1 + 24 / 100 \<le> exp (24 / 100 :: real)"
    by (rule exp_ge_add_one_self)
  then have "1 / exp (24 / 100 :: real) \<le> 1 / (1 + 24 / 100)"
    by (intro divide_left_mono) simp_all
  then show "exp (- (24 / 100) :: real) \<le> 81 / 100"
    by (simp add: exp_minus inverse_eq_divide)
qed

lemma notebook_call_in_range: "BS_in_range Phi_half 1 1 (8 / 100) (35 / 100) 3"
proof -
  note s3 = sqrt3_bounds
  note e = exp_024_bounds
  have d1: "spec_d1 1 1 (8 / 100) (35 / 100) 3 = (339 / 800) / (35 / 100 * sqrt 3)"
    by (simp add: spec_d1_def power2_eq_square)
  have "sqrt 3 * sqrt 3 = 3"
    by simp
  then have d2: "spec_d2 1 1 (8 / 100) (35 / 100) 3 = (45 / 800) / (35 / 100 * sqrt 3)"
    unfolding spec_d2_def d1 using s3 by (simp add: field_simps)
  have den: "35 / 100 \<le> 35 / 100 * sqrt 3" "35 / 100 * sqrt 3 \<le> 70 / 100"
    using s3 by simp_all
  have b1: "1 / 1000 \<le> (339 / 800) / (35 / 100 * sqrt 3)" "(339 / 800) / (35 / 100 * sqrt 3) \<le> 1000"
    using frac_le [of "339 / 800" "339 / 800" "35 / 100 * sqrt 3" "70 / 100"]
      frac_le [of "339 / 800" "339 / 800" "35 / 100" "35 / 100 * sqrt 3"] den
    by simp_all
  have b2: "1 / 1000 \<le> (45 / 800) / (35 / 100 * sqrt 3)" "(45 / 800) / (35 / 100 * sqrt 3) \<le> 1000"
    using frac_le [of "45 / 800" "45 / 800" "35 / 100 * sqrt 3" "70 / 100"]
      frac_le [of "45 / 800" "45 / 800" "35 / 100" "35 / 100 * sqrt 3"] den
    by simp_all
  have w: "representable a" if "1 / 1000 \<le> a" "a \<le> 1000" for a
    using that by (intro representable_window) simp_all
  have wn: "representable a" if "- 1000 \<le> a" "a \<le> - (1 / 1000)" for a
    using that by (intro representable_window) simp_all
  have r1: "representable (sqrt 3)"
    using s3 by (intro w) linarith+
  have r2: "representable (35 / 100 * sqrt 3)"
    using den by (intro w) linarith+
  have r3: "representable (spec_d1 1 1 (8 / 100) (35 / 100) 3)"
    unfolding d1 using b1 by (intro w)
  have r4: "representable (spec_d2 1 1 (8 / 100) (35 / 100) 3)"
    unfolding d2 using b2 by (intro w)
  have r5: "representable (exp (- (24 / 100)))"
    using e by (intro w) linarith+
  have r6: "representable (exp (- (24 / 100)) / 2)"
    using e by (intro w) linarith+
  have r7: "representable (1 / 2 - exp (- (24 / 100)) / 2)"
    using e by (intro w) linarith+
  have r8: "representable (1 / 2 - exp (- (24 / 100)) / 2 + exp (- (24 / 100)))"
    using e by (intro w) linarith+
  have r9: "representable (1 / 2 - exp (- (24 / 100)) / 2 + exp (- (24 / 100)) - 1)"
    using e by (intro wn) linarith+
  have r10: "representable (1 / 2)" "representable 1" "representable (- (24 / 100))"
    "representable (1225 / 10000)" "representable (1225 / 20000)" "representable (1130 / 8000)"
    "representable (339 / 800)"
    by (auto intro: w wn)
  show ?thesis
    unfolding BS_in_range_def Let_def
    using r1 r2 r3 r4 r5 r6 r7 r8 r9 r10
    by (simp add: Phi_half_def representable_0 power2_eq_square)
qed


lemma fsqrt_finite:
  assumes "0 \<le> a" "a < f64_overflow"
  shows "\<exists>y. fsqrt (Fin a) = Fin y \<and> (a = 0 \<longrightarrow> y = 0)"
proof -
  have "sqrt a \<le> max 1 a"
  proof (cases "a \<le> 1")
    case True
    then have "sqrt a \<le> 1"
      by simp
    then show ?thesis
      by simp
  next
    case False
    then have "sqrt a * 1 \<le> sqrt a * sqrt a"
      by (intro mult_left_mono) simp_all
    with assms(1) show ?thesis
      by simp
  qed
  with assms f64_bounds(2) have "\<bar>sqrt a\<bar> < f64_overflow"
    by simp
  then show ?thesis
    using assms(1) by (simp add: fsqrt_def)
qed

lemma fmul_underflow:
  assumes "0 \<le> t" "representable (sqrt t)" "\<bar>a * sqrt t\<bar> \<le> f64_underflow"
  shows "fmul (Fin a) (fsqrt (Fin t)) = Fin 0"
proof -
  have "f64_underflow < f64_overflow"
    using f64_bounds by linarith
  then have "\<not> f64_overflow \<le> \<bar>a * sqrt t\<bar>"
    using assms(3) by linarith
  then have "f64 (Fin (a * sqrt t)) = Fin 0"
    using assms(3) by simp
  then show ?thesis
    using assms(1,2) by (simp add: fmul_def fsqrt_def f64_exact del: f64.simps)
qed

lemma one_minus_exp_024: "representable (1 - exp (- (24 / 100)))"
  using exp_024_bounds by (intro representable_window) simp_all

lemma BS_f64_agrees:
  assumes "0 < S0" "0 < K" "0 < s" "0 < Tm" "BS_in_range Phi S0 K r s Tm"
  shows "BS_f64 kd ks Phi (Fin S0) (Fin K) (Fin r) (Fin s) (Fin Tm)
           = BS kd Phi (Fin S0) (Fin K) (Fin r) (Fin s) (Fin Tm)"
  using assms by (simp add: BS_f64_in_range(2) BS_finite)

text \<open>
  C5, as the code has it. \<open>BS\<close> has no guard. On float arguments it raises in
  exactly two cases: \<open>ZeroDivisionError\<close> when \<open>S0\<close> and \<open>K\<close> are Python scalars and
  \<open>K\<close> is zero, and \<open>OverflowError\<close> when \<open>s\<close> is a Python float whose square
  overflows; so it has an error path on positive inputs. For positive \<open>S0\<close>, \<open>K\<close>,
  \<open>s\<close>, \<open>T\<close> for which every intermediate result of the formulas stays in the
  range of float64, the divisor \<open>s * sqrt T\<close> is computed as it is and is not zero, and
  \<open>BS\<close> returns the finite call and put of the formulas. With \<open>s = 0\<close> or \<open>T = 0\<close>
  (and \<open>T\<close> a non-negative float) the divisor is zero: \<open>BS\<close> divides by it in
  numpy, which is none of the two exceptions.
\<close>

theorem BS_f64_error_paths:
  "(BS_f64 kd ks Phi S0 K r s Tm = Inl e \<longleftrightarrow>
      (kd = PyScalar \<and> K = Fin 0 \<and> e = ZeroDivisionError)
      \<or> (\<not> (kd = PyScalar \<and> K = Fin 0) \<and> ks = PyScalar
           \<and> (\<exists>a. s = Fin a \<and> f64_overflow \<le> a\<^sup>2) \<and> e = OverflowError))
   \<and> (0 < S0' \<and> 0 < K' \<and> 0 < s' \<and> 0 < Tm' \<and> BS_in_range Phi S0' K' r' s' Tm' \<longrightarrow>
        fmul (Fin s') (fsqrt (Fin Tm')) = Fin (s' * sqrt Tm') \<and> s' * sqrt Tm' \<noteq> 0
        \<and> BS_f64 kd ks Phi (Fin S0') (Fin K') (Fin r') (Fin s') (Fin Tm')
            = Inr (Fin (spec_call Phi S0' K' r' s' Tm'), Fin (spec_put Phi S0' K' r' s' Tm')))
   \<and> (0 \<le> Tm'' \<and> Tm'' < f64_overflow \<and> (s'' = 0 \<or> Tm'' = 0)
        \<longrightarrow> fmul (Fin s'') (fsqrt (Fin Tm'')) = Fin 0)"
proof (intro conjI impI)
  show "BS_f64 kd ks Phi S0 K r s Tm = Inl e \<longleftrightarrow>
      (kd = PyScalar \<and> K = Fin 0 \<and> e = ZeroDivisionError)
      \<or> (\<not> (kd = PyScalar \<and> K = Fin 0) \<and> ks = PyScalar
           \<and> (\<exists>a. s = Fin a \<and> f64_overflow \<le> a\<^sup>2) \<and> e = OverflowError)"
    by (rule BS_f64_raises_iff)
next
  assume a: "0 < S0' \<and> 0 < K' \<and> 0 < s' \<and> 0 < Tm' \<and> BS_in_range Phi S0' K' r' s' Tm'"
  then show "fmul (Fin s') (fsqrt (Fin Tm')) = Fin (s' * sqrt Tm')"
    using BS_f64_in_range(1) [of S0' K' s' Tm' Phi r'] by blast
  from a show "s' * sqrt Tm' \<noteq> 0"
    by simp
  from a show "BS_f64 kd ks Phi (Fin S0') (Fin K') (Fin r') (Fin s') (Fin Tm')
            = Inr (Fin (spec_call Phi S0' K' r' s' Tm'), Fin (spec_put Phi S0' K' r' s' Tm'))"
    by (simp add: BS_f64_in_range(2))
next
  assume a: "0 \<le> Tm'' \<and> Tm'' < f64_overflow \<and> (s'' = 0 \<or> Tm'' = 0)"
  then obtain y where "fsqrt (Fin Tm'') = Fin y" "Tm'' = 0 \<longrightarrow> y = 0"
    using fsqrt_finite [of Tm''] by blast
  with a show "fmul (Fin s'') (fsqrt (Fin Tm'')) = Fin 0"
    by (auto simp: fmul_def f64_exact representable_0 simp del: f64.simps)
qed

theorem BS_f64_error_paths_witness:
  "BS_f64 PyScalar PyScalar Phi_half (Fin 1) (Fin 0) (Fin (8 / 100)) (Fin (35 / 100)) (Fin 3)
      = Inl ZeroDivisionError
   \<and> fmul (Fin (35 / 100)) (fsqrt (Fin 3)) = Fin (35 / 100 * sqrt 3)
   \<and> 35 / 100 * sqrt 3 \<noteq> 0
   \<and> BS_f64 PyScalar NdArray Phi_half (Fin 1) (Fin 1) (Fin (8 / 100)) (Fin (35 / 100)) (Fin 3)
      = Inr (Fin (spec_call Phi_half 1 1 (8 / 100) (35 / 100) 3),
             Fin (spec_put Phi_half 1 1 (8 / 100) (35 / 100) 3))
   \<and> fmul (Fin (35 / 100)) (fsqrt (Fin 0)) = Fin 0"
proof -
  have a: "BS_f64 PyScalar PyScalar Phi_half (Fin 1) (Fin 0) (Fin (8 / 100)) (Fin (35 / 100)) (Fin 3)
      = Inl ZeroDivisionError"
    using BS_f64_error_paths
      [of PyScalar PyScalar Phi_half "Fin 1" "Fin 0" "Fin (8 / 100)" "Fin (35 / 100)" "Fin 3"
        ZeroDivisionError]
    by simp
  have b: "fmul (Fin (35 / 100)) (fsqrt (Fin 3)) = Fin (35 / 100 * sqrt 3)
     \<and> 35 / 100 * sqrt 3 \<noteq> 0
     \<and> BS_f64 PyScalar NdArray Phi_half (Fin 1) (Fin 1) (Fin (8 / 100)) (Fin (35 / 100)) (Fin 3)
        = Inr (Fin (spec_call Phi_half 1 1 (8 / 100) (35 / 100) 3),
               Fin (spec_put Phi_half 1 1 (8 / 100) (35 / 100) 3))"
    using BS_f64_error_paths
      [of PyScalar NdArray Phi_half _ _ _ _ _ _ 1 1 "35 / 100" 3 "8 / 100"]
      notebook_call_in_range
    by simp
  have c: "fmul (Fin (35 / 100)) (fsqrt (Fin 0)) = Fin 0"
    using BS_f64_error_paths [of _ _ _ _ _ _ _ _ _ _ _ _ _ _ 0 "35 / 100"] f64_bounds(2)
    by simp
  show ?thesis
    using a b c by (simp only: simp_thms)
qed

text \<open>
  At \<open>s = 10^200\<close>, with all arguments positive Python floats, \<open>BS\<close> raises
  \<open>OverflowError\<close>. With \<open>s = 0\<close> the divisor is zero and \<open>BS\<close> returns all the same:
  \<open>d1\<close> and \<open>d2\<close> are \<open>inf\<close>, both \<open>cdf\<close> values are \<open>1\<close>, and the prices are
  finite. With \<open>s = 10^-200\<close> and \<open>T = 10^-300\<close>, both positive, the divisor
  underflows to zero.
\<close>

theorem BS_raises_and_has_no_guard:
  "BS_f64 PyScalar PyScalar Phi_half (Fin 1) (Fin 1) (Fin (8 / 100)) (Fin (10 ^ 200)) (Fin 3)
      = Inl OverflowError
   \<and> fmul (Fin 0) (fsqrt (Fin 3)) = Fin 0
   \<and> BS_f64 PyScalar PyScalar Phi_half (Fin 1) (Fin 1) (Fin (8 / 100)) (Fin 0) (Fin 3)
      = Inr (Fin (1 - exp (- (24 / 100))), Fin 0)
   \<and> fmul (Fin (1 / 10 ^ 200)) (fsqrt (Fin (1 / 10 ^ 300))) = Fin 0"
proof (intro conjI)
  have "f64_overflow \<le> (10 ^ 200)\<^sup>2"
    by (simp add: f64_overflow_def)
  then show "BS_f64 PyScalar PyScalar Phi_half (Fin 1) (Fin 1) (Fin (8 / 100)) (Fin (10 ^ 200)) (Fin 3)
      = Inl OverflowError"
    by (simp add: BS_f64_def truediv_def pow2_def)
next
  have "1 / 1000 \<le> \<bar>sqrt 3\<bar>" "\<bar>sqrt 3\<bar> \<le> 1000"
    using sqrt3_bounds by linarith+
  then have r3: "representable (sqrt 3)"
    by (rule representable_window)
  then show "fmul (Fin 0) (fsqrt (Fin 3)) = Fin 0"
    by (simp add: fmul_def fsqrt_def f64_exact representable_0 del: f64.simps)
  have w: "representable a" if "1 / 1000 \<le> a" "a \<le> 1000" for a
    using that by (intro representable_window) simp_all
  have r: "representable 1" "representable (8 / 100)" "representable (24 / 100)"
    "representable (- (24 / 100))" "representable (exp (- (24 / 100)))"
    "representable (1 - exp (- (24 / 100)))"
    using exp_024_bounds one_minus_exp_024 by (auto intro: w representable_window)
  have p: "pow2 PyScalar (Fin 0) = Inr (Fin 0)"
    using f64_bounds by (simp add: pow2_def f64_overflow_def)
  show "BS_f64 PyScalar PyScalar Phi_half (Fin 1) (Fin 1) (Fin (8 / 100)) (Fin 0) (Fin 3)
      = Inr (Fin (1 - exp (- (24 / 100))), Fin 0)"
    unfolding BS_f64_def p
    using r r3
    by (simp add: truediv_def Let_def fadd_def fsub_def fdiv_def flog_def fexp_def fcdf_def
        fmul_def fsqrt_def f64_exact representable_0 inf_of_sign_def minus_npfloat_def
        del: f64.simps(1))
next
  have sq: "sqrt (1 / 10 ^ 300) = 1 / 10 ^ 150"
    by (rule real_sqrt_unique) (simp_all add: power_divide power2_eq_square flip: power_add)
  show "fmul (Fin (1 / 10 ^ 200)) (fsqrt (Fin (1 / 10 ^ 300))) = Fin 0"
  proof (rule fmul_underflow)
    show "0 \<le> (1 / 10 ^ 300 :: real)"
      by simp
    show "representable (sqrt (1 / 10 ^ 300))"
      unfolding sq by (simp add: representable_def f64_overflow_def f64_underflow_def)
    show "\<bar>1 / 10 ^ 200 * sqrt (1 / 10 ^ 300)\<bar> \<le> f64_underflow"
      unfolding sq by (simp add: f64_underflow_def)
  qed
qed


subsection \<open>Sums and means of finite arrays\<close>

lemma np_sum_Fin: "np_sum (map Fin xs) = Fin (sum_list xs)"
  by (induction xs) (simp_all add: np_sum_def)

lemma zip_Fin:
  "map (\<lambda>(a, b). b - a) (zip (map Fin xs) (map Fin ys))
     = map Fin (map (\<lambda>(a, b). b - a) (zip xs ys))"
  by (simp add: zip_map_map case_prod_unfold)

lemma series_diff_Fin:
  "series_diff (map Fin (x # xs)) = NaN # map Fin (map (\<lambda>(a, b). b - a) (zip (x # xs) xs))"
  using zip_Fin [of "x # xs" xs] by (simp add: series_diff_def del: map_map)

lemma log_returns_zip:
  "log_returns (x # xs) = map (\<lambda>(a, b). b - a) (zip (map ln (x # xs)) (map ln xs))"
  by (rule nth_equalityI) (simp_all add: log_returns_def nth_Cons')

lemma np_log_positive:
  "\<forall>x\<in>set cs. 0 < x \<Longrightarrow> map np_log (map Fin cs) = map Fin (map ln cs)"
  by simp

lemma cell6_returns:
  assumes "\<forall>x\<in>set cs. 0 < x" "cs \<noteq> []" "df_close s = map Fin cs"
  shows "df_return (cell6 s) = NaN # map Fin (log_returns cs)"
proof -
  obtain x xs where cs: "cs = x # xs"
    using assms(2) by (cases cs) auto
  have "df_return (cell6 s) = series_diff (map np_log (map Fin cs))"
    by (simp add: cell6_def assms(3))
  also have "\<dots> = series_diff (map Fin (ln x # map ln xs))"
    unfolding np_log_positive [OF assms(1)] by (simp only: cs list.map)
  also have "\<dots> = NaN # map Fin (map (\<lambda>(a, b). b - a) (zip (ln x # map ln xs) (map ln xs)))"
    by (rule series_diff_Fin)
  also have "\<dots> = NaN # map Fin (log_returns cs)"
    by (simp add: cs log_returns_zip)
  finally show ?thesis .
qed

lemma np_std_Fin:
  assumes "rs \<noteq> []"
  shows "np_std (NaN # map Fin rs) = Fin (stdev rs)"
proof -
  have f: "filter (\<lambda>v. v \<noteq> NaN) (NaN # map Fin rs) = map Fin rs"
    by (induction rs) simp_all
  have n: "real (length rs) \<noteq> 0"
    using assms by simp
  have avg: "np_sum (map Fin rs) / Fin (real (length rs)) = Fin (mean rs)"
    using n by (simp add: np_sum_Fin mean_def)
  have sqr: "map (\<lambda>v. (Fin (sum_list rs / real (length rs)) - v) ^ 2) (map Fin rs)
               = map Fin (map (\<lambda>x. (x - mean rs)\<^sup>2) rs)"
    by (simp add: power2_commute mean_def)
  have nonneg: "0 \<le> sum_list (map (\<lambda>x. (x - mean rs)\<^sup>2) rs) / real (length rs)"
    by (intro divide_nonneg_nonneg sum_list_nonneg) auto
  show ?thesis
    unfolding np_std_def f Let_def
    using assms n nonneg
    by (simp add: sqr np_sum_Fin stdev_def del: map_map)
qed

lemma vol_refines_spec:
  assumes "2 \<le> length cs" "\<forall>x\<in>set cs. 0 < x" "df_close s = map Fin cs"
  shows "vol (cell8 (cell6 s)) = Fin (spec_vol cs)"
proof -
  have ne: "cs \<noteq> []" "log_returns cs \<noteq> []"
    using assms(1) by (auto simp: log_returns_def)
  show ?thesis
    using cell6_returns[OF assms(2) ne(1) assms(3)] np_std_Fin[OF ne(2)]
    by (simp add: cell8_def spec_vol_def)
qed

lemma np_mean_Fin: "xs \<noteq> [] \<Longrightarrow> np_mean (map Fin xs) = Fin (sum_list xs / real (length xs))"
  by (simp add: np_mean_def np_sum_Fin)

subsection \<open>What the cells leave unchanged, and that they do not raise\<close>

lemma cell12_vol: "cell12 L s = Inr s' \<Longrightarrow> vol s' = vol s"
  by (auto simp: cell12_def Let_def split: sum.splits prod.splits)

lemma cell40_vol: "cell40 L s = Inr s' \<Longrightarrow> vol s' = vol s"
  by (auto simp: cell40_def Let_def split: sum.splits prod.splits)

lemma cell46_vol: "cell46 L s = Inr s' \<Longrightarrow> vol s' = vol s"
  by (auto simp: cell46_def Let_def split: sum.splits prod.splits)

lemma cell16_vol: "vol (cell16 L s) = vol s"
  by (simp add: cell16_def cell16_pricing_def Let_def)

lemma cell21_vol: "vol (cell21 L s) = vol s"
  by (simp add: cell21_def Let_def)

lemma run_cells_preserves:
  assumes "\<And>f s s'. f \<in> set fs \<Longrightarrow> f s = Inr s' \<Longrightarrow> P s' = P s"
  shows "run_cells fs s = Inr s' \<Longrightarrow> P s' = P s"
  using assms
proof (induction fs arbitrary: s)
  case Nil
  then show ?case by simp
next
  case (Cons f fs)
  then show ?case
    by (fastforce split: sum.splits)
qed

lemma cells_after_vol_preserve:
  assumes "f \<in> set (cells_after_vol L)" "f s = Inr s'"
  shows "vol s' = vol s"
  using assms
  by (auto simp: cells_after_vol_def cell16_vol cell21_vol cell28_def cell41_def
      dest: cell12_vol cell40_vol cell46_vol)

lemma cell12_total: "\<exists>s'. cell12 L s = Inr s'"
  by (auto simp: cell12_def Let_def BS_raises_iff split: sum.splits prod.splits)

lemma cell40_total: "\<exists>s'. cell40 L s = Inr s'"
  by (auto simp: cell40_def Let_def BS_raises_iff split: sum.splits prod.splits)

lemma cell46_total: "\<exists>s'. cell46 L s = Inr s'"
  by (auto simp: cell46_def Let_def BS_raises_iff split: sum.splits prod.splits)

lemma run_cells_total:
  assumes "\<And>f s. f \<in> set fs \<Longrightarrow> \<exists>s'. f s = Inr s'"
  shows "\<exists>s'. run_cells fs s = Inr s'"
  using assms
proof (induction fs arbitrary: s)
  case Nil
  then show ?case by simp
next
  case (Cons f fs)
  obtain s1 where "f s = Inr s1"
    using Cons.prems[of f s] by auto
  then show ?case
    using Cons.IH[of s1] Cons.prems by auto
qed

lemma cells_after_vol_total:
  "f \<in> set (cells_after_vol L) \<Longrightarrow> \<exists>s'. f s = Inr s'"
  using cell12_total cell40_total cell46_total
  by (auto simp: cells_after_vol_def)

subsection \<open>The volatility\<close>

text \<open>
  C8. For a series of at least two positive close prices, the volatility that
  cells 6 and 8 compute is the (population) standard deviation of the daily log
  returns times \<open>sqrt 252\<close>: the first element of the return column is \<open>nan\<close> and
  is skipped. However far the later cells are run, \<open>vol\<close> keeps the value cell 8
  gave it, and the later cells raise no exception; so the volatility at the end of a
  run of the whole notebook is the one of cell 8.
\<close>

theorem vol_computed_once:
  "(2 \<le> length cs \<and> (\<forall>x\<in>set cs. 0 < x) \<and> df_close s = map Fin cs
      \<longrightarrow> df_return (cell6 s) = NaN # map Fin (log_returns cs)
          \<and> vol (cell8 (cell6 s)) = Fin (spec_vol cs))
   \<and> (run_cells (take n (cells_after_vol L)) s1 = Inr s2 \<longrightarrow> vol s2 = vol s1)
   \<and> (\<exists>s3. run_cells (cells_after_vol L) s1 = Inr s3)
   \<and> (run L s = Inr s4 \<longrightarrow> vol s4 = vol (cell8 (cell6 s)))"
proof (intro conjI impI)
  assume a: "2 \<le> length cs \<and> (\<forall>x\<in>set cs. 0 < x) \<and> df_close s = map Fin cs"
  then show "vol (cell8 (cell6 s)) = Fin (spec_vol cs)"
    by (simp add: vol_refines_spec)
  from a have "cs \<noteq> []"
    by auto
  with a show "df_return (cell6 s) = NaN # map Fin (log_returns cs)"
    by (simp add: cell6_returns)
next
  assume "run_cells (take n (cells_after_vol L)) s1 = Inr s2"
  then show "vol s2 = vol s1"
    by (rule run_cells_preserves [rotated]) (auto dest: in_set_takeD cells_after_vol_preserve)
next
  show "\<exists>s3. run_cells (cells_after_vol L) s1 = Inr s3"
    by (rule run_cells_total) (rule cells_after_vol_total)
next
  assume "run L s = Inr s4"
  then have "run_cells (cells_after_vol L) (cell8 (cell6 s)) = Inr s4"
    by (simp add: run_def cells_to_vol_def)
  then show "vol s4 = vol (cell8 (cell6 s))"
    by (rule run_cells_preserves [rotated]) (auto dest: cells_after_vol_preserve)
qed

theorem vol_computed_once_witness:
  "df_return (cell6 (nb_init (0::nat) (map Fin [100, 110, 99])))
      = NaN # map Fin (log_returns [100, 110, 99])
   \<and> vol (cell8 (cell6 (nb_init (0::nat) (map Fin [100, 110, 99])))) = Fin (spec_vol [100, 110, 99])
   \<and> vol (projr (run_cells (cells_after_vol lib_stalled) nb_example)) = Fin (35 / 100)
   \<and> vol (projr (run lib_stalled (nb_init (0::nat) (map Fin [100, 110, 99]))))
      = Fin (spec_vol [100, 110, 99])"
proof -
  let ?s = "nb_init (0::nat) (map Fin [100, 110, 99])"
  let ?r = "run_cells (cells_after_vol lib_stalled) nb_example"
  let ?q = "run lib_stalled ?s"
  note th = vol_computed_once [of "[100, 110, 99]" ?s 7 lib_stalled nb_example "projr ?r" "projr ?q"]
  have a: "df_return (cell6 ?s) = NaN # map Fin (log_returns [100, 110, 99])"
    "vol (cell8 (cell6 ?s)) = Fin (spec_vol [100, 110, 99])"
    using th by (simp_all add: nb_init_def)
  obtain s3 where s3: "?r = Inr s3"
    using th by blast
  have "take 7 (cells_after_vol lib_stalled) = cells_after_vol lib_stalled"
    by (simp add: cells_after_vol_def)
  then have b: "vol (projr ?r) = vol nb_example"
    using th s3 by simp
  have "\<exists>s4. run_cells (cells_after_vol lib_stalled) (cell8 (cell6 ?s)) = Inr s4"
    using vol_computed_once [of "[]" ?s 0 lib_stalled "cell8 (cell6 ?s)" "cell8 (cell6 ?s)" s3]
    by blast
  then obtain s4 where s4: "?q = Inr s4"
    by (auto simp: run_def cells_to_vol_def)
  have c: "vol (projr ?q) = vol (cell8 (cell6 ?s))"
    using th s4 by simp
  show ?thesis
    using a b c by (simp add: nb_example_def)
qed

subsection \<open>The Monte Carlo cell\<close>

text \<open>
  C9. The estimates of cell 16 are a function of the four variables the cell reads
  and of the seeded generator alone: they are the same in any two states that agree
  on \<open>rfr\<close>, \<open>vol\<close>, \<open>maturity\<close> and \<open>last_close\<close>, whatever the state of numpy's
  global generator, which the cell leaves as it was; and evaluating the cell a second
  time gives the same state as the first.
\<close>

theorem mc_deterministic:
  "(rfr s = rfr s' \<and> vol s = vol s' \<and> maturity s = maturity s' \<and> last_close s = last_close s'
      \<longrightarrow> c_mc (cell16 L s) = c_mc (cell16 L s') \<and> p_mc (cell16 L s) = p_mc (cell16 L s'))
   \<and> c_mc (cell16 L (s\<lparr>np_random := g\<rparr>)) = c_mc (cell16 L s)
   \<and> p_mc (cell16 L (s\<lparr>np_random := g\<rparr>)) = p_mc (cell16 L s)
   \<and> np_random (cell16 L s) = np_random s
   \<and> cell16 L (cell16 L s) = cell16 L s"
  by (simp add: cell16_def cell16_pricing_def Let_def)


theorem mc_deterministic_witness:
  "c_mc (cell16 lib_stalled nb_example) = c_mc (cell16 lib_stalled (nb_example\<lparr>np_random := 7\<rparr>))
   \<and> p_mc (cell16 lib_stalled nb_example) = p_mc (cell16 lib_stalled (nb_example\<lparr>np_random := 7\<rparr>))
   \<and> np_random (cell16 lib_stalled nb_example) = 0
   \<and> cell16 lib_stalled (cell16 lib_stalled nb_example) = cell16 lib_stalled nb_example"
proof -
  have same: "rfr nb_example = rfr (nb_example\<lparr>np_random := 7\<rparr>)
      \<and> vol nb_example = vol (nb_example\<lparr>np_random := 7\<rparr>)
      \<and> maturity nb_example = maturity (nb_example\<lparr>np_random := 7\<rparr>)
      \<and> last_close nb_example = last_close (nb_example\<lparr>np_random := 7\<rparr>)"
    by simp
  have "np_random nb_example = 0"
    by (simp add: nb_example_def nb_init_def)
  with same show ?thesis
    using mc_deterministic [of nb_example "nb_example\<lparr>np_random := 7\<rparr>" lib_stalled 3]
    by (elim conjE impE) simp_all
qed

lemma payoff_difference:
  "sum_list (map (\<lambda>x. max 0 (x - S)) xs) - sum_list (map (\<lambda>x. max 0 (S - x)) xs)
     = sum_list xs - real (length xs) * (S::real)"
  by (induction xs) (auto simp: algebra_simps max_def)

text \<open>
  C10. For every non-empty sample of finite draws, with finite \<open>last_close\<close>, \<open>rfr\<close>
  and \<open>vol\<close> and a finite, non-negative \<open>maturity\<close>, the two estimates of cell 16
  are finite and \<open>c_mc - p_mc = exp (- rfr * maturity) * (mean ST - last_close)\<close>:
  the strike of cell 16 is \<open>last_close\<close>.
\<close>

theorem mc_sample_parity:
  assumes eps: "epsilon s = map Fin es" "es \<noteq> []"
    and fin: "last_close s = Fin S" "rfr s = Fin r" "vol s = Fin v" "maturity s = Fin t"
    and t: "0 \<le> t"
  shows "\<exists>cm pm m. c_mc (cell16_pricing s) = Fin cm \<and> p_mc (cell16_pricing s) = Fin pm
           \<and> np_mean (ST (cell16_pricing s)) = Fin m
           \<and> cm - pm = exp (- (r * t)) * (m - S)"
proof -
  define g where "g e = S * exp ((r - v\<^sup>2 / 2) * t + v * e * sqrt t)" for e
  define xs where "xs = map g es"
  define n where "n = real (length es)"
  have n: "n \<noteq> 0" "length xs = length es" "xs \<noteq> []"
    using eps by (simp_all add: n_def xs_def)
  have ST: "ST (cell16_pricing s) = map Fin xs"
    using fin t by (simp add: cell16_pricing_def Let_def eps xs_def g_def comp_def)
  have cp: "call_payoffs (cell16_pricing s) = map Fin (map (\<lambda>x. max 0 (x - S)) xs)"
    using fin t by (simp add: cell16_pricing_def Let_def eps xs_def g_def comp_def)
  have pp: "put_payoffs (cell16_pricing s) = map Fin (map (\<lambda>x. max 0 (S - x)) xs)"
    using fin t by (simp add: cell16_pricing_def Let_def eps xs_def g_def comp_def)
  have cm: "c_mc (cell16_pricing s)
      = Fin (sum_list (map (\<lambda>x. max 0 (x - S)) xs) / n * exp (- (r * t)))"
    using cp fin n
    by (simp add: cell16_pricing_def Let_def np_mean_Fin n_def del: map_map)
  have pm: "p_mc (cell16_pricing s)
      = Fin (sum_list (map (\<lambda>x. max 0 (S - x)) xs) / n * exp (- (r * t)))"
    using pp fin n
    by (simp add: cell16_pricing_def Let_def np_mean_Fin n_def del: map_map)
  have m: "np_mean (ST (cell16_pricing s)) = Fin (sum_list xs / n)"
    using ST n by (simp add: np_mean_Fin n_def)
  have "sum_list (map (\<lambda>x. max 0 (x - S)) xs) / n * exp (- (r * t))
          - sum_list (map (\<lambda>x. max 0 (S - x)) xs) / n * exp (- (r * t))
        = exp (- (r * t)) * ((sum_list (map (\<lambda>x. max 0 (x - S)) xs)
             - sum_list (map (\<lambda>x. max 0 (S - x)) xs)) / n)"
    by (simp add: algebra_simps diff_divide_distrib)
  also have "\<dots> = exp (- (r * t)) * (sum_list xs / n - S)"
    using n by (simp add: payoff_difference n_def field_simps)
  finally show ?thesis
    using cm pm m by blast
qed

theorem mc_sample_parity_witness:
  "\<exists>cm pm m.
      c_mc (cell16_pricing (nb_example\<lparr>epsilon := map Fin [- 1, 0, 1]\<rparr>)) = Fin cm
    \<and> p_mc (cell16_pricing (nb_example\<lparr>epsilon := map Fin [- 1, 0, 1]\<rparr>)) = Fin pm
    \<and> np_mean (ST (cell16_pricing (nb_example\<lparr>epsilon := map Fin [- 1, 0, 1]\<rparr>))) = Fin m
    \<and> cm - pm = exp (- (8 / 100 * 3)) * (m - 1)"
proof -
  have "epsilon (nb_example\<lparr>epsilon := map Fin [- 1, 0, 1]\<rparr>) = map Fin [- 1, 0, 1]"
    "[- 1, 0, 1::real] \<noteq> []"
    "last_close (nb_example\<lparr>epsilon := map Fin [- 1, 0, 1]\<rparr>) = Fin 1"
    "rfr (nb_example\<lparr>epsilon := map Fin [- 1, 0, 1]\<rparr>) = Fin (8 / 100)"
    "vol (nb_example\<lparr>epsilon := map Fin [- 1, 0, 1]\<rparr>) = Fin (35 / 100)"
    "maturity (nb_example\<lparr>epsilon := map Fin [- 1, 0, 1]\<rparr>) = Fin 3"
    "(0::real) \<le> 3"
    by (simp_all add: nb_example_def nb_init_def)
  then show ?thesis
    by (rule mc_sample_parity)
qed

subsection \<open>The structured note\<close>

lemma bank_margin: "0 < exp (- (24 / 100)) - exp (- (3 / 10)) - (2 / 100 :: real)"
proof -
  have e: "exp (- (24 / 100)) = exp (- (3 / 10)) * exp (6 / 100 :: real)"
    by (simp add: exp_add [symmetric])
  have a: "1 + 6 / 100 \<le> exp (6 / 100 :: real)"
    by (rule exp_ge_add_one_self)
  have b: "7 / 10 \<le> exp (- (3 / 10) :: real)"
    using exp_ge_add_one_self [of "- (3 / 10) :: real"] by simp
  have "7 / 10 * (6 / 100) \<le> exp (- (3 / 10)) * (exp (6 / 100) - 1 :: real)"
    using a b by (intro mult_mono) simp_all
  then show ?thesis
    unfolding e by (simp add: algebra_simps)
qed

lemma cell12_fields:
  assumes "cell12 L s = Inr s'"
  shows "rfr s' = Fin (8 / 100)" "maturity s' = Fin 3" "last_close s' = Fin 1"
  using assms by (auto simp: cell12_def Let_def split: sum.splits prod.splits)

lemma cell40_result:
  assumes "rfr s = Fin r" "vol s = Fin v" "0 < v" "maturity s = Fin t"
  shows "cell40 L s = Inr (s\<lparr>p0 := Fin (98 / 100), pnl := Fin (2 / 100), tr_rate := Fin (1 / 10),
            T := Fin 3,
            call_spread := Fin (spec_call (erf_cdf L) 1 1 r v 3 - spec_call (erf_cdf L) 1 (3 / 2) r v 3),
            k := Fin (98 / 100 - exp (- (r * t)))
                   / Fin (spec_call (erf_cdf L) 1 1 r v 3 - spec_call (erf_cdf L) 1 (3 / 2) r v 3)\<rparr>)"
  using assms
    BS_finite [of 1 1 v 3 PyScalar "erf_cdf L" r]
    BS_finite [of 1 "3 / 2" v 3 PyScalar "erf_cdf L" r]
  by (simp add: cell40_def Let_def)

lemma cell46_result:
  assumes "rfr s = Fin r" "vol s = Fin v" "0 < v" "maturity s = Fin t" "T s = Fin 3" "p0 s = Fin a"
  shows "cell46 L s
           = Inr (s\<lparr>c_otm := Fin (spec_call (erf_cdf L) 1 1 r v 3 - (a - exp (- (r * t))))\<rparr>)"
  using assms BS_finite [of 1 1 v 3 PyScalar "erf_cdf L" r]
  by (simp add: cell46_def)

lemma run_after_vol_unfold:
  "run_cells (cells_after_vol L) s =
     (case cell12 L s of
        Inl e \<Rightarrow> Inl e
      | Inr s1 \<Rightarrow>
          (case cell40 L (cell28 (cell21 L (cell16 L s1))) of
             Inl e \<Rightarrow> Inl e
           | Inr s2 \<Rightarrow> cell46 L (cell41 s2)))"
  by (simp add: cells_after_vol_def split: sum.splits)

text \<open>The state in which the notebook ends, for a finite positive volatility.\<close>

lemma run_after_vol_result:
  assumes run: "run_cells (cells_after_vol L) s = Inr s'" and v: "vol s = Fin v" "0 < v"
  defines "ca \<equiv> spec_call (erf_cdf L) 1 1 (8 / 100) v 3"
    and "cb \<equiv> spec_call (erf_cdf L) 1 (3 / 2) (8 / 100) v 3"
  shows "rfr s' = Fin (8 / 100)" "maturity s' = Fin 3" "vol s' = Fin v"
    "p0 s' = Fin (98 / 100)" "pnl s' = Fin (2 / 100)" "tr_rate s' = Fin (1 / 10)" "T s' = Fin 3"
    "call_spread s' = Fin (ca - cb)"
    "k s' = Fin (98 / 100 - exp (- (24 / 100))) / Fin (ca - cb)"
    "PV_bank s' = Fin (98 / 100) - Fin (exp (- (3 / 10))) - Fin (2 / 100)
                    - Fin (98 / 100 - exp (- (24 / 100))) / Fin (ca - cb) * Fin (ca - cb)"
    "c_otm s' = Fin (ca - (98 / 100 - exp (- (24 / 100))))"
proof -
  obtain s1 s2 where s1: "cell12 L s = Inr s1"
    and s2: "cell40 L (cell28 (cell21 L (cell16 L s1))) = Inr s2"
    and s': "cell46 L (cell41 s2) = Inr s'"
    using run unfolding run_after_vol_unfold by (auto split: sum.splits)
  let ?sa = "cell28 (cell21 L (cell16 L s1))"
  have sa: "rfr ?sa = Fin (8 / 100)" "maturity ?sa = Fin 3" "vol ?sa = Fin v"
    using cell12_fields [OF s1] cell12_vol [OF s1] v
    by (simp_all add: cell28_def cell21_def cell16_def cell16_pricing_def Let_def)
  note r40 = cell40_result [OF sa(1) sa(3) v(2) sa(2), of L]
  have s2_eq: "s2 = ?sa\<lparr>p0 := Fin (98 / 100), pnl := Fin (2 / 100), tr_rate := Fin (1 / 10),
            T := Fin 3, call_spread := Fin (ca - cb),
            k := Fin (98 / 100 - exp (- (8 / 100 * 3))) / Fin (ca - cb)\<rparr>"
    using s2 r40 by (simp add: ca_def cb_def)
  have f41: "rfr (cell41 s2) = Fin (8 / 100)" "vol (cell41 s2) = Fin v"
    "maturity (cell41 s2) = Fin 3" "T (cell41 s2) = Fin 3" "p0 (cell41 s2) = Fin (98 / 100)"
    using sa by (simp_all add: s2_eq cell41_def)
  note r46 = cell46_result [OF f41(1) f41(2) v(2) f41(3) f41(4) f41(5), of L]
  have s'_eq: "s' = (cell41 s2)\<lparr>c_otm := Fin (ca - (98 / 100 - exp (- (8 / 100 * 3))))\<rparr>"
    using s' r46 by (simp add: ca_def)
  show "rfr s' = Fin (8 / 100)" "maturity s' = Fin 3" "vol s' = Fin v"
    "p0 s' = Fin (98 / 100)" "pnl s' = Fin (2 / 100)" "tr_rate s' = Fin (1 / 10)" "T s' = Fin 3"
    "call_spread s' = Fin (ca - cb)"
    "k s' = Fin (98 / 100 - exp (- (24 / 100))) / Fin (ca - cb)"
    "c_otm s' = Fin (ca - (98 / 100 - exp (- (24 / 100))))"
    using sa by (simp_all add: s'_eq s2_eq cell41_def)
  show "PV_bank s' = Fin (98 / 100) - Fin (exp (- (3 / 10))) - Fin (2 / 100)
                    - Fin (98 / 100 - exp (- (24 / 100))) / Fin (ca - cb) * Fin (ca - cb)"
    by (simp add: s'_eq s2_eq cell41_def del: Fin_minus)
qed

text \<open>
  C3. Take a run of the cells after cell 8 from a state with a finite positive
  volatility, for which the two call prices of cell 40 differ. It ends with
  \<open>k = (0.98 - exp (- rfr * maturity)) / call_spread\<close>; with this \<open>k\<close> the client's
  present value is exactly zero, and the bank's present value of cell 41 is
  \<open>exp (- 0.08 * 3) - exp (- 0.1 * 3) - 0.02\<close>, which is not negative.
\<close>

theorem mode_a_participation_rate:
  assumes run: "run_cells (cells_after_vol L) s = Inr s'" and v: "vol s = Fin v" "0 < v"
    and spread: "spec_call (erf_cdf L) 1 1 (8 / 100) v 3 \<noteq> spec_call (erf_cdf L) 1 (3 / 2) (8 / 100) v 3"
  shows "call_spread s' = Fin (spec_call (erf_cdf L) 1 1 (8 / 100) v 3
                               - spec_call (erf_cdf L) 1 (3 / 2) (8 / 100) v 3)
    \<and> k s' = Fin ((98 / 100 - exp (- (8 / 100 * 3)))
                  / (spec_call (erf_cdf L) 1 1 (8 / 100) v 3
                     - spec_call (erf_cdf L) 1 (3 / 2) (8 / 100) v 3))
    \<and> PV_client s' = Fin 0
    \<and> PV_bank s' = Fin (exp (- (8 / 100 * 3)) - exp (- (1 / 10 * 3)) - 2 / 100)
    \<and> 0 \<le> exp (- (8 / 100 * 3)) - exp (- (1 / 10 * 3)) - (2 / 100 :: real)"
proof -
  note res = run_after_vol_result [OF run v]
  have nz: "spec_call (erf_cdf L) 1 1 (8 / 100) v 3 - spec_call (erf_cdf L) 1 (3 / 2) (8 / 100) v 3 \<noteq> 0"
    using spread by simp
  show ?thesis
    using nz bank_margin
    by (simp add: res PV_client_def)
qed


theorem mode_a_participation_rate_witness:
  "call_spread (projr (run_cells (cells_after_vol lib_stalled) nb_example))
      = Fin (spec_call Phi_half 1 1 (8 / 100) (35 / 100) 3
             - spec_call Phi_half 1 (3 / 2) (8 / 100) (35 / 100) 3)
    \<and> k (projr (run_cells (cells_after_vol lib_stalled) nb_example))
      = Fin ((98 / 100 - exp (- (8 / 100 * 3)))
             / (spec_call Phi_half 1 1 (8 / 100) (35 / 100) 3
                - spec_call Phi_half 1 (3 / 2) (8 / 100) (35 / 100) 3))
    \<and> PV_client (projr (run_cells (cells_after_vol lib_stalled) nb_example)) = Fin 0
    \<and> PV_bank (projr (run_cells (cells_after_vol lib_stalled) nb_example))
      = Fin (exp (- (8 / 100 * 3)) - exp (- (1 / 10 * 3)) - 2 / 100)
    \<and> 0 \<le> exp (- (8 / 100 * 3)) - exp (- (1 / 10 * 3)) - (2 / 100 :: real)"
proof -
  obtain s' where run: "run_cells (cells_after_vol lib_stalled) nb_example = Inr s'"
    using run_cells_total [of "cells_after_vol lib_stalled" nb_example] cells_after_vol_total
    by blast
  have v: "vol nb_example = Fin (35 / 100)" "(0::real) < 35 / 100"
    by (simp_all add: nb_example_def nb_init_def)
  have spread: "spec_call (erf_cdf lib_stalled) 1 1 (8 / 100) (35 / 100) 3
      \<noteq> spec_call (erf_cdf lib_stalled) 1 (3 / 2) (8 / 100) (35 / 100) 3"
    by (simp add: lib_stalled_def spec_call_def Phi_half_def)
  have Phi: "erf_cdf lib_stalled = Phi_half"
    by (simp add: lib_stalled_def)
  show ?thesis
    using mode_a_participation_rate [OF run v spread]
    unfolding run Phi by simp
qed





text \<open>
  C6, as the code has it. Cell 48 displays the first element of \<open>x\<close> of whatever
  result the root-finder returns, and it never looks at \<open>success\<close>: an exception
  raised inside \<open>optimize.root\<close> is passed on, and cell 48 raises in no other case
  (but for a result whose \<open>x\<close> is empty). The root-finder is called once.
\<close>

theorem root_failure_not_reported:
  "(optimize_root L (root_fun L s) (Fin (3 / 2)) = Inr res \<and> res_x res = xv # rest
      \<longrightarrow> out48 L s = Inr xv)
   \<and> (optimize_root L (root_fun L s) (Fin (3 / 2)) = Inl e \<longrightarrow> out48 L s = Inl e)
   \<and> (out48 L s = Inl e' \<longrightarrow>
        optimize_root L (root_fun L s) (Fin (3 / 2)) = Inl e'
        \<or> (e' = IndexError
            \<and> (\<exists>r. optimize_root L (root_fun L s) (Fin (3 / 2)) = Inr r \<and> res_x r = [])))"
  by (auto simp: out48_def split: sum.splits list.splits)

theorem root_failure_not_reported_witness:
  "out48 lib_stalled (projr (run_cells (cells_after_vol lib_stalled) nb_example))
      = Inr (Fin (3 / 2))
   \<and> out48 (lib_stalled\<lparr>optimize_root := \<lambda>f x0. Inl SolverError\<rparr>) nb_example = Inl SolverError"
  using
    root_failure_not_reported
      [of lib_stalled "projr (run_cells (cells_after_vol lib_stalled) nb_example)"
        "\<lparr>res_x = [Fin (3 / 2)], res_success = False\<rparr>" "Fin (3 / 2)" "[]"]
    root_failure_not_reported
      [of "lib_stalled\<lparr>optimize_root := \<lambda>f x0. Inl SolverError\<rparr>" nb_example _ _ _ SolverError]
  by (simp add: lib_stalled_def)

text \<open>
  A root-finder that stops at its starting point and says so in \<open>success\<close>: cell 48
  displays the starting point as the strike.
\<close>

theorem root_failure_silent:
  "optimize_root lib_stalled
      (root_fun lib_stalled (projr (run_cells (cells_after_vol lib_stalled) nb_example)))
      (Fin (3 / 2))
     = Inr \<lparr>res_x = [Fin (3 / 2)], res_success = False\<rparr>
   \<and> out48 lib_stalled (projr (run_cells (cells_after_vol lib_stalled) nb_example))
     = Inr (Fin (3 / 2))"
  by (simp add: out48_def lib_stalled_def)

subsection \<open>Vega\<close>

lemma pdf_Fin: "pdf (Fin d) = Fin (spec_phi d)"
  by (simp add: pdf_def spec_phi_def power2_eq_square)

lemma pdf_nonneg: "x \<noteq> NaN \<Longrightarrow> \<exists>w. pdf x = Fin w \<and> 0 \<le> w"
  by (cases x) (simp_all add: pdf_def inf_of_sign_def)

lemma vega_sensitivity_shared:
  "DERIV (\<lambda>x. spec_call Phi S0 K r x t) v :> w \<longleftrightarrow> DERIV (\<lambda>x. spec_put Phi S0 K r x t) v :> w"
proof
  assume "DERIV (\<lambda>x. spec_call Phi S0 K r x t) v :> w"
  then have "DERIV (\<lambda>x. spec_call Phi S0 K r x t + K * exp (- (r * t)) - S0) v :> w"
    by (auto intro!: derivative_eq_intros)
  then show "DERIV (\<lambda>x. spec_put Phi S0 K r x t) v :> w"
    by (simp add: spec_put_def)
next
  assume "DERIV (\<lambda>x. spec_put Phi S0 K r x t) v :> w"
  then have "DERIV (\<lambda>x. spec_put Phi S0 K r x t - K * exp (- (r * t)) + S0) v :> w"
    by (auto intro!: derivative_eq_intros)
  then show "DERIV (\<lambda>x. spec_call Phi S0 K r x t) v :> w"
    by (simp add: spec_put_def)
qed

lemma d1_deriv:
  assumes "0 < v" "0 < t"
  shows "DERIV (\<lambda>x. spec_d1 S K r x t) v
           :> (- (ln (S / K) + r * t) / (v\<^sup>2 * sqrt t) + sqrt t / 2)"
  unfolding spec_d1_def
  using assms
  by (auto intro!: derivative_eq_intros simp: field_simps power2_eq_square)

lemma density_identity:
  assumes "0 < S" "0 < K" "0 < v" "0 < t"
  shows "S * spec_phi (spec_d1 S K r v t) = K * exp (- (r * t)) * spec_phi (spec_d2 S K r v t)"
proof -
  let ?a = "ln (S / K) + r * t"
  let ?d1 = "spec_d1 S K r v t"
  let ?d2 = "spec_d2 S K r v t"
  have st: "sqrt t * sqrt t = t"
    using assms by simp
  have "?d1\<^sup>2 - ?d2\<^sup>2 = (?d1 - ?d2) * (?d1 + ?d2)"
    by (simp add: power2_eq_square algebra_simps)
  also have "\<dots> = v * sqrt t * (2 * ?d1 - v * sqrt t)"
    by (simp add: spec_d2_def algebra_simps)
  also have "\<dots> = 2 * (v * sqrt t * ?d1) - v\<^sup>2 * t"
    using st by (simp add: algebra_simps power2_eq_square)
  also have "v * sqrt t * ?d1 = ln (S / K) + (r + v\<^sup>2 / 2) * t"
    using assms by (simp add: spec_d1_def)
  finally have diff: "?d1\<^sup>2 - ?d2\<^sup>2 = 2 * ?a"
    by (simp add: algebra_simps)
  have "exp (- ?d2\<^sup>2 / 2) = exp (- ?d1\<^sup>2 / 2 + ?a)"
    using diff by (simp add: field_simps)
  also have "\<dots> = exp (- ?d1\<^sup>2 / 2) * (exp (ln (S / K)) * exp (r * t))"
    by (simp only: exp_add)
  also have "\<dots> = exp (- ?d1\<^sup>2 / 2) * (S / K * exp (r * t))"
    using assms by simp
  finally have "K * exp (- (r * t)) * exp (- ?d2\<^sup>2 / 2) = S * exp (- ?d1\<^sup>2 / 2)"
    using assms by (simp add: exp_minus field_simps)
  then show ?thesis
    by (simp add: spec_phi_def field_simps)
qed

lemma vega_is_sensitivity:
  assumes pos: "0 < S" "0 < K" "0 < v" "0 < t"
    and P1: "DERIV Phi (spec_d1 S K r v t) :> spec_phi (spec_d1 S K r v t)"
    and P2: "DERIV Phi (spec_d2 S K r v t) :> spec_phi (spec_d2 S K r v t)"
  shows "DERIV (\<lambda>x. spec_call Phi S K r x t) v :> S * sqrt t * spec_phi (spec_d1 S K r v t)"
proof -
  define D where "D = - (ln (S / K) + r * t) / (v\<^sup>2 * sqrt t) + sqrt t / 2"
  define p1 where "p1 = spec_phi (spec_d1 S K r v t)"
  define p2 where "p2 = spec_phi (spec_d2 S K r v t)"
  define q where "q = exp (- (r * t))"
  have d1: "DERIV (\<lambda>x. spec_d1 S K r x t) v :> D"
    unfolding D_def using pos(3,4) by (rule d1_deriv)
  have d2: "DERIV (\<lambda>x. spec_d2 S K r x t) v :> D - sqrt t"
    unfolding spec_d2_def
    by (auto intro!: derivative_eq_intros d1)
  have c1: "DERIV (\<lambda>x. Phi (spec_d1 S K r x t)) v :> p1 * D"
    unfolding p1_def using DERIV_chain2 [OF P1 d1] .
  have c2: "DERIV (\<lambda>x. Phi (spec_d2 S K r x t)) v :> p2 * (D - sqrt t)"
    unfolding p2_def using DERIV_chain2 [OF P2 d2] .
  have "DERIV (\<lambda>x. S * Phi (spec_d1 S K r x t) - K * q * Phi (spec_d2 S K r x t)) v
          :> S * (p1 * D) - K * q * (p2 * (D - sqrt t))"
    by (auto intro!: derivative_eq_intros c1 c2)
  moreover have "K * q * p2 = S * p1"
    using density_identity [OF pos, of r] by (simp add: p1_def p2_def q_def)
  then have "S * (p1 * D) - K * q * (p2 * (D - sqrt t)) = S * sqrt t * p1"
    by (simp add: algebra_simps)
  ultimately show ?thesis
    by (simp add: spec_call_def q_def p1_def)
qed

text \<open>
  C7. Cell 28 computes \<open>vega = last_close * sqrt maturity * N'(d1)\<close> with the standard
  normal density \<open>N'\<close>; for positive \<open>last_close\<close> and \<open>maturity\<close> it is not
  negative (for an infinite \<open>d1\<close> too). The \<open>d1\<close> of cell 21 is the \<open>d1\<close> of \<open>BS\<close>
  at the money. The one value serves the call and the put: the two prices of \<open>BS\<close>
  differ by a term without the volatility, so a number is the derivative of the one
  in the volatility exactly when it is the derivative of the other. And where the
  distribution function has the normal density as its derivative at \<open>d1\<close> and \<open>d2\<close>,
  \<open>S0 * sqrt T * N'(d1)\<close> is that derivative: the sensitivity of the prices of \<open>BS\<close>
  to the volatility.
\<close>

theorem vega_formula_nonnegative:
  "(last_close s = Fin S \<and> maturity s = Fin t \<and> d1 s = Fin d \<and> 0 < S \<and> 0 < t \<longrightarrow>
      vega (cell28 s) = Fin (S * sqrt t * spec_phi d) \<and> 0 \<le> S * sqrt t * spec_phi d)
   \<and> (last_close s = Fin S \<and> maturity s = Fin t \<and> d1 s \<noteq> NaN \<and> 0 < S \<and> 0 < t \<longrightarrow>
        (\<exists>w. vega (cell28 s) = Fin w \<and> 0 \<le> w))
   \<and> (rfr s = Fin r \<and> vol s = Fin v \<and> maturity s = Fin t \<and> 0 < v \<and> 0 < t \<and> 0 < S' \<longrightarrow>
        d1 (cell21 L s) = Fin (spec_d1 S' S' r v t))
   \<and> (DERIV (\<lambda>x. spec_call Phi S0 K r' x t') v' :> w'
        \<longleftrightarrow> DERIV (\<lambda>x. spec_put Phi S0 K r' x t') v' :> w')
   \<and> (0 < S0 \<and> 0 < K \<and> 0 < v' \<and> 0 < t'
        \<and> DERIV Phi (spec_d1 S0 K r' v' t') :> spec_phi (spec_d1 S0 K r' v' t')
        \<and> DERIV Phi (spec_d2 S0 K r' v' t') :> spec_phi (spec_d2 S0 K r' v' t')
      \<longrightarrow> DERIV (\<lambda>x. spec_call Phi S0 K r' x t') v'
            :> S0 * sqrt t' * spec_phi (spec_d1 S0 K r' v' t'))"
proof (intro conjI impI)
  assume a: "last_close s = Fin S \<and> maturity s = Fin t \<and> d1 s = Fin d \<and> 0 < S \<and> 0 < t"
  then show "vega (cell28 s) = Fin (S * sqrt t * spec_phi d)"
    by (simp add: cell28_def pdf_Fin)
  from a show "0 \<le> S * sqrt t * spec_phi d"
    by (simp add: spec_phi_def)
next
  assume a: "last_close s = Fin S \<and> maturity s = Fin t \<and> d1 s \<noteq> NaN \<and> 0 < S \<and> 0 < t"
  then obtain w where w: "pdf (d1 s) = Fin w" "0 \<le> w"
    using pdf_nonneg by blast
  with a have "vega (cell28 s) = Fin (S * sqrt t * w) \<and> 0 \<le> S * sqrt t * w"
    by (simp add: cell28_def)
  then show "\<exists>w. vega (cell28 s) = Fin w \<and> 0 \<le> w"
    by blast
next
  assume "rfr s = Fin r \<and> vol s = Fin v \<and> maturity s = Fin t \<and> 0 < v \<and> 0 < t \<and> 0 < S'"
  then show "d1 (cell21 L s) = Fin (spec_d1 S' S' r v t)"
    by (simp add: cell21_def Let_def spec_d1_def)
next
  show "DERIV (\<lambda>x. spec_call Phi S0 K r' x t') v' :> w'
        \<longleftrightarrow> DERIV (\<lambda>x. spec_put Phi S0 K r' x t') v' :> w'"
    by (rule vega_sensitivity_shared)
next
  assume "0 < S0 \<and> 0 < K \<and> 0 < v' \<and> 0 < t'
        \<and> DERIV Phi (spec_d1 S0 K r' v' t') :> spec_phi (spec_d1 S0 K r' v' t')
        \<and> DERIV Phi (spec_d2 S0 K r' v' t') :> spec_phi (spec_d2 S0 K r' v' t')"
  then show "DERIV (\<lambda>x. spec_call Phi S0 K r' x t') v'
            :> S0 * sqrt t' * spec_phi (spec_d1 S0 K r' v' t')"
    by (simp add: vega_is_sensitivity)
qed

theorem vega_formula_nonnegative_witness:
  "d1 (cell21 lib_stalled nb_example) = Fin (spec_d1 1 1 (8 / 100) (35 / 100) 3)
   \<and> vega (cell28 (cell21 lib_stalled nb_example))
       = Fin (1 * sqrt 3 * spec_phi (spec_d1 1 1 (8 / 100) (35 / 100) 3))
   \<and> 0 \<le> 1 * sqrt 3 * spec_phi (spec_d1 1 1 (8 / 100) (35 / 100) 3)
   \<and> (\<exists>w. vega (cell28 (cell21 lib_stalled nb_example)) = Fin w \<and> 0 \<le> w)
   \<and> DERIV (\<lambda>x. spec_call Phi_quadratic 1 1 (8 / 100) x 3) (35 / 100)
        :> 1 * sqrt 3 * spec_phi (spec_d1 1 1 (8 / 100) (35 / 100) 3)"
proof -
  let ?a = "spec_d1 1 1 (8 / 100) (35 / 100) 3"
  let ?b = "spec_d2 1 1 (8 / 100) (35 / 100) 3"
  have a: "d1 (cell21 lib_stalled nb_example) = Fin ?a"
    using vega_formula_nonnegative [of nb_example _ 3 _ "8 / 100" "35 / 100" 1 lib_stalled]
    by (simp add: nb_example_def nb_init_def)
  have b: "last_close (cell21 lib_stalled nb_example) = Fin 1"
    "maturity (cell21 lib_stalled nb_example) = Fin 3"
    by (simp_all add: cell21_def Let_def nb_example_def nb_init_def)
  have "?a - ?b = 35 / 100 * sqrt 3"
    unfolding spec_d2_def by simp
  moreover have "35 / 100 * sqrt 3 \<noteq> (0::real)"
    by simp
  ultimately have ab: "?a - ?b \<noteq> 0"
    by (simp only: simp_thms)
  define m where "m = (spec_phi ?a - spec_phi ?b) / (2 * (?a - ?b))"
  have q: "Phi_quadratic = (\<lambda>x. spec_phi ?a * x + m * (x - ?a)\<^sup>2)"
    by (rule ext) (simp add: Phi_quadratic_def Let_def m_def)
  have dq: "DERIV Phi_quadratic x :> spec_phi ?a + m * (2 * (x - ?a))" for x
    unfolding q by (auto intro!: derivative_eq_intros)
  have "m * (2 * (?b - ?a)) = spec_phi ?b - spec_phi ?a"
    using ab by (simp add: m_def field_simps)
  then have "spec_phi ?a + m * (2 * (?b - ?a)) = spec_phi ?b"
    by simp
  then have db: "DERIV Phi_quadratic ?b :> spec_phi ?b"
    using dq [of ?b] by (simp only:)
  have da: "DERIV Phi_quadratic ?a :> spec_phi ?a"
    using dq [of ?a] by simp
  show ?thesis
    using vega_formula_nonnegative
      [of "cell21 lib_stalled nb_example" 1 3 ?a _ _ _ _ Phi_quadratic 1 1 "8 / 100" 3 "35 / 100"]
      a b da db
    by simp
qed

end

